theory Spec2Isabelle
  imports Main "HOL-Library.Word"
begin

unbundle bit_operations_syntax

section \<open>Bytes and strings\<close>

text \<open>
  A \<open>Uint8Array\<close> / \<open>Buffer\<close> is a list of bytes. A JavaScript string is held as the
  list of its UTF-8 bytes (\<open>char\<close> is an 8-bit type), so \<open>utf8ToBytes\<close>, which the hash
  applies to a string argument, only changes the element type.
\<close>

type_synonym byte = "8 word"

definition utf8ToBytes :: "string \<Rightarrow> byte list" where
  "utf8ToBytes s = map (\<lambda>c. of_nat (of_char c)) s"

text \<open>\<open>s.startsWith(p)\<close> and \<open>s.endsWith(p)\<close>.\<close>

definition startsWith :: "string \<Rightarrow> string \<Rightarrow> bool" where
  "startsWith s p = (take (length p) s = p)"

definition endsWith :: "string \<Rightarrow> string \<Rightarrow> bool" where
  "endsWith s p = (length p \<le> length s \<and> drop (length s - length p) s = p)"


section \<open>The hash: \<open>sha256\<close> and \<open>Buffer.toString('hex')\<close>\<close>

text \<open>
  \<open>files.helpers.ts\<close> imports \<open>sha256\<close> from \<open>@documenso/lib/universal/crypto\<close>, which is
  not among the sources. It is SHA-256 as FIPS 180-4 defines it, applied to the UTF-8 bytes
  of a string argument. The 32-bit words are natural numbers below \<open>2^32\<close>; every addition
  is reduced \<open>mod 4294967296\<close>. \<open>K256\<close> holds the 64 round constants and \<open>H256\<close> the
  initial hash value, in decimal (the first is \<open>428a2f98\<close> and \<open>6a09e667\<close> in hexadecimal).
\<close>

type_synonym w32 = nat

definition K256 :: "w32 list" where
  "K256 =
     [
      1116352408, 1899447441, 3049323471, 3921009573, 961987163, 1508970993,
      2453635748, 2870763221, 3624381080, 310598401, 607225278, 1426881987,
      1925078388, 2162078206, 2614888103, 3248222580, 3835390401, 4022224774,
      264347078, 604807628, 770255983, 1249150122, 1555081692, 1996064986,
      2554220882, 2821834349, 2952996808, 3210313671, 3336571891, 3584528711,
      113926993, 338241895, 666307205, 773529912, 1294757372, 1396182291,
      1695183700, 1986661051, 2177026350, 2456956037, 2730485921, 2820302411,
      3259730800, 3345764771, 3516065817, 3600352804, 4094571909, 275423344,
      430227734, 506948616, 659060556, 883997877, 958139571, 1322822218,
      1537002063, 1747873779, 1955562222, 2024104815, 2227730452, 2361852424,
      2428436474, 2756734187, 3204031479, 3329325298]"

definition H256 :: "w32 list" where
  "H256 =
     [
      1779033703, 3144134277, 1013904242, 2773480762, 1359893119, 2600822924,
      528734635, 1541459225]"

definition add32 :: "w32 \<Rightarrow> w32 \<Rightarrow> w32" where
  "add32 x y = (x + y) mod 4294967296"

definition rotr :: "nat \<Rightarrow> w32 \<Rightarrow> w32" where
  "rotr n x = x div 2 ^ n + (x mod 2 ^ n) * 2 ^ (32 - n)"

text \<open>The choice and majority functions; the complement of \<open>e\<close> is \<open>4294967295 - e\<close>.\<close>

definition Ch :: "w32 \<Rightarrow> w32 \<Rightarrow> w32 \<Rightarrow> w32" where
  "Ch e f g = (e AND f) XOR ((4294967295 - e) AND g)"

definition Maj :: "w32 \<Rightarrow> w32 \<Rightarrow> w32 \<Rightarrow> w32" where
  "Maj a b c = (a AND b) XOR (a AND c) XOR (b AND c)"

definition Sigma0 :: "w32 \<Rightarrow> w32" where
  "Sigma0 x = rotr 2 x XOR rotr 13 x XOR rotr 22 x"

definition Sigma1 :: "w32 \<Rightarrow> w32" where
  "Sigma1 x = rotr 6 x XOR rotr 11 x XOR rotr 25 x"

definition sigma0 :: "w32 \<Rightarrow> w32" where
  "sigma0 x = rotr 7 x XOR rotr 18 x XOR (x div 8)"

definition sigma1 :: "w32 \<Rightarrow> w32" where
  "sigma1 x = rotr 17 x XOR rotr 19 x XOR (x div 1024)"

text \<open>Big-endian: four bytes to a word, and a number to \<open>k\<close> bytes.\<close>

fun be32 :: "byte list \<Rightarrow> w32 list" where
  "be32 (a # b # c # d # rest) =
     (unat a * 16777216 + unat b * 65536 + unat c * 256 + unat d) # be32 rest"
| "be32 _ = []"

definition be_bytes :: "nat \<Rightarrow> nat \<Rightarrow> byte list" where
  "be_bytes k n = map (\<lambda>i. of_nat (n div 256 ^ (k - 1 - i))) [0..<k]"

text \<open>
  The message schedule, built most recent word first: with \<open>t\<close> words present,
  \<open>ws ! 1\<close> is \<open>W(t-2)\<close>, \<open>ws ! 6\<close> is \<open>W(t-7)\<close>, \<open>ws ! 14\<close> is \<open>W(t-15)\<close> and
  \<open>ws ! 15\<close> is \<open>W(t-16)\<close>.
\<close>

definition schedule_step :: "w32 list \<Rightarrow> w32 list" where
  "schedule_step ws =
     add32 (add32 (add32 (sigma1 (ws ! 1)) (ws ! 6)) (sigma0 (ws ! 14))) (ws ! 15) # ws"

definition schedule :: "w32 list \<Rightarrow> w32 list" where
  "schedule w16 = rev (fold (\<lambda>_. schedule_step) [16..<64] (rev w16))"

fun round_step :: "w32 \<times> w32 \<Rightarrow> w32 list \<Rightarrow> w32 list" where
  "round_step (k, w) [a, b, c, d, e, f, g, h] =
     (let t1 = add32 (add32 (add32 (add32 h (Sigma1 e)) (Ch e f g)) k) w;
          t2 = add32 (Sigma0 a) (Maj a b c)
      in [add32 t1 t2, a, b, c, add32 d t1, e, f, g])"
| "round_step _ st = st"

definition rounds :: "w32 list \<Rightarrow> w32 list \<Rightarrow> w32 list \<Rightarrow> w32 list" where
  "rounds ks ws st = fold round_step (zip ks ws) st"

definition compress :: "w32 list \<Rightarrow> byte list \<Rightarrow> w32 list" where
  "compress hs block = map2 add32 hs (rounds K256 (schedule (be32 block)) hs)"

definition pad :: "byte list \<Rightarrow> byte list" where
  "pad m = m @ [0x80] @ replicate ((119 - length m mod 64) mod 64) 0 @ be_bytes 8 (8 * length m)"

definition sha256 :: "byte list \<Rightarrow> byte list" where
  "sha256 m =
     (let p = pad m
      in concat (map (be_bytes 4)
           (foldl compress H256
              (map (\<lambda>i. take 64 (drop (64 * i) p)) [0..<length p div 64]))))"

definition hexdigit :: "nat \<Rightarrow> char" where
  "hexdigit n = ''0123456789abcdef'' ! n"

definition toHex :: "byte list \<Rightarrow> string" where
  "toHex bs = concat (map (\<lambda>b. [hexdigit (unat b div 16), hexdigit (unat b mod 16)]) bs)"


section \<open>Base64 (\<open>base64\<close> of \<open>@scure/base\<close>)\<close>

text \<open>
  \<open>put-file.server.ts\<close> encodes with \<open>base64.encode\<close> of the package \<open>@scure/base\<close>:
  the standard alphabet of RFC 4648 with \<open>=\<close> padding. Three bytes make one 24-bit number
  and four 6-bit digits. \<open>base64_decode\<close> is the strict inverse: \<open>None\<close> stands for the
  exception on a string that is no padded Base64 text.
\<close>

definition base64_alphabet :: string where
  "base64_alphabet = ''ABCDEFGHIJKLMNOPQRSTUVWXYZabcdefghijklmnopqrstuvwxyz0123456789+/''"

definition base64_char :: "nat \<Rightarrow> char" where
  "base64_char i = base64_alphabet ! i"

fun index_of :: "'a \<Rightarrow> 'a list \<Rightarrow> nat option" where
  "index_of x [] = None"
| "index_of x (y # ys) = (if x = y then Some 0 else map_option Suc (index_of x ys))"

definition base64_value :: "char \<Rightarrow> nat option" where
  "base64_value c = index_of c base64_alphabet"

fun base64_encode :: "byte list \<Rightarrow> string" where
  "base64_encode [] = []"
| "base64_encode [a] =
     (let n = unat a * 16
      in [base64_char (n div 64), base64_char (n mod 64), CHR ''='', CHR ''=''])"
| "base64_encode [a, b] =
     (let n = (unat a * 256 + unat b) * 4
      in [base64_char (n div 4096), base64_char (n div 64 mod 64), base64_char (n mod 64),
          CHR ''=''])"
| "base64_encode (a # b # c # rest) =
     (let n = unat a * 65536 + unat b * 256 + unat c
      in base64_char (n div 262144) # base64_char (n div 4096 mod 64) #
         base64_char (n div 64 mod 64) # base64_char (n mod 64) # base64_encode rest)"

fun base64_decode :: "string \<Rightarrow> byte list option" where
  "base64_decode [] = Some []"
| "base64_decode (c1 # c2 # c3 # c4 # rest) =
     (if rest = [] \<and> c4 = CHR ''='' then
        (if c3 = CHR ''='' then
           (case (base64_value c1, base64_value c2) of
              (Some v1, Some v2) \<Rightarrow>
                if v2 mod 16 = 0 then Some [of_nat (v1 * 4 + v2 div 16)] else None
            | _ \<Rightarrow> None)
         else
           (case (base64_value c1, base64_value c2, base64_value c3) of
              (Some v1, Some v2, Some v3) \<Rightarrow>
                if v3 mod 4 = 0
                then (let n = v1 * 1024 + v2 * 16 + v3 div 4
                      in Some [of_nat (n div 256), of_nat (n mod 256)])
                else None
            | _ \<Rightarrow> None))
      else
        (case (base64_value c1, base64_value c2, base64_value c3, base64_value c4) of
           (Some v1, Some v2, Some v3, Some v4) \<Rightarrow>
             (let n = v1 * 262144 + v2 * 4096 + v3 * 64 + v4
              in map_option
                   (\<lambda>bs. of_nat (n div 65536) # of_nat (n div 256 mod 256) #
                         of_nat (n mod 256) # bs)
                   (base64_decode rest))
         | _ \<Rightarrow> None))"
| "base64_decode _ = None"


section \<open>Data model\<close>

text \<open>
  \<open>DocumentDataType\<close> and \<open>DocumentStatus\<close> are enums of \<open>@prisma/client\<close>. The sources
  name \<open>BYTES_64\<close> (the bytes in Base64, in the database row) and \<open>S3_PATH\<close> (the key of an
  object in the object store), and they distinguish \<open>COMPLETED\<close> from every other status.
\<close>

datatype DocumentDataType = BYTES_64 | S3_PATH

datatype DocumentStatus = DRAFT | PENDING | COMPLETED | REJECTED

record DocumentData =
  dd_id :: string
  dd_type :: DocumentDataType
  dd_data :: string
  dd_initialData :: string

datatype Version = signed | original

text \<open>The \<open>File\<close> of \<open>put-file.server.ts\<close>; \<open>file.size\<close> is the length of its bytes.\<close>

record File =
  name :: string
  mime_type :: string
  contents :: "byte list"

definition file_size :: "File \<Rightarrow> nat" where
  "file_size f = length (contents f)"

datatype error = AppError string | Error string

text \<open>
  What the upload path can change: the objects of the object store, the rows of the
  \<open>DocumentData\<close> table, and the record of every invocation of \<open>putFileServerSide\<close>
  (the storage backend's \<open>put\<close>), oldest first.
\<close>

record world =
  s3_objects :: "string \<rightharpoonup> byte list"
  documentData_table :: "DocumentData list"
  put_calls :: "File list"

record PDFDocument =
  isEncrypted :: bool

text \<open>
  The collaborators of the upload path that are not among the sources:
  \<^item> \<open>PDFDocument_load\<close>: \<open>PDFDocument.load\<close> of \<open>@cantoo/pdf-lib\<close>, \<open>None\<close> when it rejects;
  \<^item> \<open>normalizePdf\<close>: \<open>server-only/pdf/normalize-pdf\<close>, \<open>Inl\<close> when it throws;
  \<^item> \<open>NEXT_PUBLIC_UPLOAD_TRANSPORT\<close>: the value of that environment variable;
  \<^item> \<open>s3_key_for\<close>: the key the object store upload generates for a file, \<open>None\<close> when
    the upload fails;
  \<^item> \<open>new_id\<close>: the id given to the n-th \<open>DocumentData\<close> row.
\<close>

record upload_env =
  PDFDocument_load :: "byte list \<Rightarrow> PDFDocument option"
  normalizePdf :: "byte list \<Rightarrow> error + byte list"
  NEXT_PUBLIC_UPLOAD_TRANSPORT :: "string option"
  s3_key_for :: "File \<Rightarrow> string option"
  new_id :: "nat \<Rightarrow> string"


section \<open>\<open>put-file.server.ts\<close>\<close>

text \<open>
  Modelled from the spec: \<open>uploadS3File\<close> (\<open>universal/upload/server-actions\<close>) is not among
  the sources. Section 4.1: the object-store \<open>put\<close> "uploads to an external object store
  under a generated key"; a network failure is an error of its own.
\<close>

definition uploadS3File :: "upload_env \<Rightarrow> File \<Rightarrow> world \<Rightarrow> (error + string) \<times> world" where
  "uploadS3File env file w =
     (case s3_key_for env file of
        None \<Rightarrow> (Inl (Error ''Failed to upload file''), w)
      | Some key \<Rightarrow> (Inr key, w\<lparr>s3_objects := (s3_objects w)(key \<mapsto> contents file)\<rparr>))"

text \<open>
  Modelled from the spec: \<open>createDocumentData\<close> (\<open>server-only/document-data\<close>) is not among
  the sources. Section 2: the persisted \<open>DocumentData{type, data}\<close> is "handed to the
  collaborator layer for record creation"; a new record starts with its initial data equal
  to its data.
\<close>

definition createDocumentData ::
  "upload_env \<Rightarrow> DocumentDataType \<Rightarrow> string \<Rightarrow> world \<Rightarrow> DocumentData \<times> world" where
  "createDocumentData env ty dat w =
     (let row = \<lparr>dd_id = new_id env (length (documentData_table w)), dd_type = ty,
                 dd_data = dat, dd_initialData = dat\<rparr>
      in (row, w\<lparr>documentData_table := documentData_table w @ [row]\<rparr>))"

definition putFileInDatabase :: "File \<Rightarrow> DocumentDataType \<times> string" where
  "putFileInDatabase file =
     (let binaryData = contents file;
          asciiData = base64_encode binaryData
      in (BYTES_64, asciiData))"

definition putFileInS3 ::
  "upload_env \<Rightarrow> File \<Rightarrow> world \<Rightarrow> (error + DocumentDataType \<times> string) \<times> world" where
  "putFileInS3 env file w =
     (case uploadS3File env file w of
        (Inl e, w') \<Rightarrow> (Inl e, w')
      | (Inr key, w') \<Rightarrow> (Inr (S3_PATH, key), w'))"

definition putFileServerSide ::
  "upload_env \<Rightarrow> File \<Rightarrow> world \<Rightarrow> (error + DocumentDataType \<times> string) \<times> world" where
  "putFileServerSide env file w =
     (let w1 = w\<lparr>put_calls := put_calls w @ [file]\<rparr>
      in if NEXT_PUBLIC_UPLOAD_TRANSPORT env = Some ''s3''
         then putFileInS3 env file w1
         else (Inr (putFileInDatabase file), w1))"

definition isEncryptedDocumentsAllowed :: bool where
  "isEncryptedDocumentsAllowed = False"

definition putPdfFileServerSide ::
  "upload_env \<Rightarrow> File \<Rightarrow> world \<Rightarrow> (error + DocumentData) \<times> world" where
  "putPdfFileServerSide env file w =
     (case PDFDocument_load env (contents file) of
        None \<Rightarrow> (Inl (AppError ''INVALID_DOCUMENT_FILE''), w)
      | Some pdf \<Rightarrow>
          if \<not> isEncryptedDocumentsAllowed \<and> isEncrypted pdf
          then (Inl (AppError ''INVALID_DOCUMENT_FILE''), w)
          else
            (let file' = (if \<not> endsWith (name file) ''.pdf''
                          then file\<lparr>name := name file @ ''.pdf''\<rparr> else file)
             in case putFileServerSide env file' w of
                  (Inl e, w1) \<Rightarrow> (Inl e, w1)
                | (Inr (ty, dat), w1) \<Rightarrow>
                    (case createDocumentData env ty dat w1 of
                       (documentData, w2) \<Rightarrow> (Inr documentData, w2))))"

definition putNormalizedPdfFileServerSide ::
  "upload_env \<Rightarrow> File \<Rightarrow> world \<Rightarrow> (error + DocumentData) \<times> world" where
  "putNormalizedPdfFileServerSide env file w =
     (let buffer = contents file
      in case normalizePdf env buffer of
           Inl e \<Rightarrow> (Inl e, w)
         | Inr normalized \<Rightarrow>
             (let fileName = (if endsWith (name file) ''.pdf'' then name file
                              else name file @ ''.pdf'')
              in case putFileServerSide env
                        \<lparr>name = fileName, mime_type = ''application/pdf'',
                         contents = normalized\<rparr> w of
                   (Inl e, w1) \<Rightarrow> (Inl e, w1)
                 | (Inr (ty, dat), w1) \<Rightarrow>
                     (case createDocumentData env ty dat w1 of
                        (documentData, w2) \<Rightarrow> (Inr documentData, w2))))"

text \<open>
  Modelled from the spec: \<open>normalizePdf\<close> (\<open>server-only/pdf/normalize-pdf\<close>) is not
  among the sources. Section 4.2 names the two upload paths "validate-only" and
  "validate+normalize": validation rejects, with \<open>InvalidDocumentFile\<close>, "documents that
  fail structural parsing" and "encrypted documents"; the normalization variant
  "additionally rewrites internal PDF structure" before the bytes are handed to the storage
  backend. \<open>putNormalizedPdfFileServerSide\<close> has no validation of its own, so on its path
  the validation is here. \<open>load\<close> is the PDF parser and \<open>rewrite\<close> the rewriting.
\<close>

definition normalizePdf_spec ::
  "(byte list \<Rightarrow> PDFDocument option) \<Rightarrow> (byte list \<Rightarrow> byte list) \<Rightarrow> byte list \<Rightarrow>
   error + byte list" where
  "normalizePdf_spec load rewrite pdf =
     (case load pdf of
        None \<Rightarrow> Inl (AppError ''INVALID_DOCUMENT_FILE'')
      | Some doc \<Rightarrow>
          if isEncrypted doc then Inl (AppError ''INVALID_DOCUMENT_FILE'')
          else Inr (rewrite pdf))"

text \<open>
  Modelled from the spec: \<open>getFileServerSide\<close> (\<open>universal/upload/get-file.server\<close>) is
  not among the sources. Section 4.1, \<open>StorageBackend.get\<close>: the inline backend "decodes the
  same encoding", the object-store backend "fetches the object by key". \<open>None\<close> is a
  rejected promise.
\<close>

definition StorageBackend_get :: "world \<Rightarrow> DocumentDataType \<Rightarrow> string \<Rightarrow> byte list option" where
  "StorageBackend_get w ty dat =
     (case ty of
        BYTES_64 \<Rightarrow> base64_decode dat
      | S3_PATH \<Rightarrow> s3_objects w dat)"


section \<open>HTTP responses\<close>

text \<open>
  A response is its status, the headers the handler has set with \<open>c.header\<close>, and its
  body: \<open>c.body(null, 304)\<close> has none, \<open>c.body(file)\<close> the bytes, \<open>c.json({ error })\<close> an
  error message and \<open>c.json(result)\<close> the record of the upload. The \<open>console\<close> output and
  the timing variables have no part in a response and are left out.
\<close>

datatype body = NoBody | FileBody "byte list" | JsonError string | JsonDocumentData DocumentData

record response =
  res_status :: nat
  res_headers :: "string \<rightharpoonup> string"
  res_body :: body

text \<open>\<open>c.json\<close> gives its answer the header \<open>Content-Type: application/json\<close>.\<close>

definition c_json_error :: "string \<Rightarrow> nat \<Rightarrow> response" where
  "c_json_error msg code =
     \<lparr>res_status = code, res_headers = [''Content-Type'' \<mapsto> ''application/json''],
      res_body = JsonError msg\<rparr>"


section \<open>\<open>handleEnvelopeItemFileRequest\<close>\<close>

record HandleEnvelopeItemFileRequestOptions =
  title :: string
  status :: DocumentStatus
  documentData :: DocumentData
  version :: Version
  isDownload :: bool

text \<open>
  The collaborators of the retrieval path that are not among the sources:
  \<^item> \<open>getFileServerSide\<close>: \<open>universal/upload/get-file.server\<close>, \<open>None\<close> when the promise
    rejects (the handler's \<open>.catch\<close> turns that into \<open>null\<close>);
  \<^item> \<open>contentDisposition\<close>: the package \<open>content-disposition\<close>;
  \<^item> \<open>verifyEmbeddingPresignToken\<close>: the user id of a presign token, \<open>None\<close> when it
    rejects;
  \<^item> \<open>getTeamById\<close>: the id of the team when the user is a member, \<open>None\<close> when it rejects.
\<close>

record collaborators =
  getFileServerSide :: "DocumentDataType \<Rightarrow> string \<Rightarrow> byte list option"
  contentDisposition :: "string \<Rightarrow> string"
  verifyEmbeddingPresignToken :: "string \<Rightarrow> nat option"
  getTeamById :: "nat \<Rightarrow> nat \<Rightarrow> nat option"

text \<open>\<open>title.replace(/\.pdf$/, '')\<close>\<close>

definition replace_pdf_suffix :: "string \<Rightarrow> string" where
  "replace_pdf_suffix t = (if endsWith t ''.pdf'' then take (length t - 4) t else t)"

text \<open>
  The handler's two local constants, as functions of its options: the data string that the
  version selects, and the ETag, \<open>Buffer.from(sha256(documentDataToUse)).toString('hex')\<close>.
\<close>

definition documentDataToUse :: "HandleEnvelopeItemFileRequestOptions \<Rightarrow> string" where
  "documentDataToUse opts =
     (if version opts = signed then dd_data (documentData opts)
      else dd_initialData (documentData opts))"

definition etag :: "HandleEnvelopeItemFileRequestOptions \<Rightarrow> string" where
  "etag opts = toHex (sha256 (utf8ToBytes (documentDataToUse opts)))"

text \<open>
  The handler returns the response and the list of the calls of \<open>getFileServerSide\<close> it
  made, each with its type and data arguments. \<open>req\<close> holds the request's headers.
\<close>

definition handleEnvelopeItemFileRequest ::
  "collaborators \<Rightarrow> HandleEnvelopeItemFileRequestOptions \<Rightarrow> (string \<rightharpoonup> string) \<Rightarrow>
   response \<times> (DocumentDataType \<times> string) list" where
  "handleEnvelopeItemFileRequest co opts req =
     (if req ''If-None-Match'' = Some (etag opts) \<and> \<not> isDownload opts then
        (\<lparr>res_status = 304, res_headers = Map.empty, res_body = NoBody\<rparr>, [])
      else
        (let fetch = (dd_type (documentData opts), documentDataToUse opts)
         in case getFileServerSide co (dd_type (documentData opts)) (documentDataToUse opts) of
              None \<Rightarrow> (c_json_error ''File not found'' 404, [fetch])
            | Some file \<Rightarrow>
                (let h1 = [''Content-Type'' \<mapsto> ''application/pdf''];
                     h2 = h1(''ETag'' \<mapsto> etag opts);
                     h3 = (if \<not> isDownload opts then
                             (if status opts = COMPLETED
                              then h2(''Cache-Control'' \<mapsto> ''public, max-age=31536000, immutable'')
                              else h2(''Cache-Control'' \<mapsto> ''public, max-age=0, must-revalidate''))
                           else h2);
                     h4 = (if isDownload opts then
                             (let baseTitle = replace_pdf_suffix (title opts);
                                  suffix = (if version opts = signed then ''_signed.pdf''
                                            else ''.pdf'');
                                  filename = baseTitle @ suffix
                              in h3(''Content-Disposition'' \<mapsto> contentDisposition co filename,
                                    ''Cache-Control'' \<mapsto> ''no-cache, no-store, must-revalidate'',
                                    ''Pragma'' \<mapsto> ''no-cache'',
                                    ''Expires'' \<mapsto> ''0''))
                           else h3)
                 in (\<lparr>res_status = 200, res_headers = h4, res_body = FileBody file\<rparr>,
                     [fetch]))))"


section \<open>The routes of \<open>filesRoute\<close>\<close>

text \<open>
  The rows the routes read: an envelope with its recipients' tokens and its items, each
  item with its document data when it has one. The database is the list of the envelopes.
\<close>

record EnvelopeItem =
  item_id :: string
  item_title :: string
  item_documentData :: "DocumentData option"

record Envelope =
  env_id :: string
  env_status :: DocumentStatus
  env_teamId :: nat
  env_qrToken :: "string option"
  env_recipients :: "string list"
  env_envelopeItems :: "EnvelopeItem list"

text \<open>
  \<open>prisma.envelope.findFirst({ where: { id }, include: { envelopeItems: { where: { id } } } })\<close>
\<close>

definition envelope_findFirst :: "Envelope list \<Rightarrow> string \<Rightarrow> string \<Rightarrow> Envelope option" where
  "envelope_findFirst db envelopeId envelopeItemId =
     map_option
       (\<lambda>e. e\<lparr>env_envelopeItems := filter (\<lambda>i. item_id i = envelopeItemId) (env_envelopeItems e)\<rparr>)
       (find (\<lambda>e. env_id e = envelopeId) db)"

text \<open>
  \<open>prisma.envelopeItem.findUnique({ where: envelopeWhereQuery, include: { envelope } })\<close>,
  with \<open>envelopeWhereQuery\<close> as the two token routes build it: the item of that id whose
  envelope has a recipient with the token, or, for a token that starts with \<open>qr_\<close>, whose
  envelope has that QR token.
\<close>

definition envelopeItem_findUnique ::
  "Envelope list \<Rightarrow> string \<Rightarrow> string \<Rightarrow> (Envelope \<times> EnvelopeItem) option" where
  "envelopeItem_findUnique db token envelopeItemId =
     find (\<lambda>(e, i). item_id i = envelopeItemId \<and>
                     (if startsWith token ''qr_'' then env_qrToken e = Some token
                      else token \<in> set (env_recipients e)))
          (concat (map (\<lambda>e. map (Pair e) (env_envelopeItems e)) db))"

text \<open>JavaScript's \<open>if (token)\<close> on an optional string and \<open>if (!userId)\<close> on an optional number.\<close>

definition truthy_string :: "string option \<Rightarrow> bool" where
  "truthy_string s = (s \<noteq> None \<and> s \<noteq> Some [])"

definition truthy_number :: "nat option \<Rightarrow> bool" where
  "truthy_number n = (n \<noteq> None \<and> n \<noteq> Some 0)"

text \<open>
  \<open>GET /envelope/:envelopeId/envelopeItem/:envelopeItemId\<close>. \<open>session\<close> is
  \<open>session.user?.id\<close> and \<open>token\<close> the query parameter.
\<close>

definition get_envelopeItem ::
  "collaborators \<Rightarrow> Envelope list \<Rightarrow> nat option \<Rightarrow> string option \<Rightarrow> string \<Rightarrow> string \<Rightarrow>
   (string \<rightharpoonup> string) \<Rightarrow> response \<times> (DocumentDataType \<times> string) list" where
  "get_envelopeItem co db session token envelopeId envelopeItemId req =
     (let userId = (if truthy_string token
                    then verifyEmbeddingPresignToken co (the token) else session)
      in if \<not> truthy_number userId then (c_json_error ''Unauthorized'' 401, [])
         else
           (case envelope_findFirst db envelopeId envelopeItemId of
              None \<Rightarrow> (c_json_error ''Envelope not found'' 404, [])
            | Some envelope \<Rightarrow>
                (case env_envelopeItems envelope of
                   [] \<Rightarrow> (c_json_error ''Envelope item not found'' 404, [])
                 | envelopeItem # _ \<Rightarrow>
                     (case getTeamById co (the userId) (env_teamId envelope) of
                        None \<Rightarrow>
                          (c_json_error
                             ''User does not have access to the team that this envelope is associated with''
                             403, [])
                      | Some team \<Rightarrow>
                          (case item_documentData envelopeItem of
                             None \<Rightarrow> (c_json_error ''Document data not found'' 404, [])
                           | Some dd \<Rightarrow>
                               handleEnvelopeItemFileRequest co
                                 \<lparr>title = item_title envelopeItem, status = env_status envelope,
                                  documentData = dd, version = signed, isDownload = False\<rparr>
                                 req)))))"

text \<open>
  \<open>GET /envelope/:envelopeId/envelopeItem/:envelopeItemId/download/:version?\<close>.
  \<open>session\<close> is the id of \<open>session.user\<close> when there is one; \<open>ver\<close> is the validated
  parameter.
\<close>

definition get_envelopeItem_download ::
  "collaborators \<Rightarrow> Envelope list \<Rightarrow> nat option \<Rightarrow> string \<Rightarrow> string \<Rightarrow> Version \<Rightarrow>
   (string \<rightharpoonup> string) \<Rightarrow> response \<times> (DocumentDataType \<times> string) list" where
  "get_envelopeItem_download co db session envelopeId envelopeItemId ver req =
     (case session of
        None \<Rightarrow> (c_json_error ''Unauthorized'' 401, [])
      | Some userId \<Rightarrow>
          (case envelope_findFirst db envelopeId envelopeItemId of
             None \<Rightarrow> (c_json_error ''Envelope not found'' 404, [])
           | Some envelope \<Rightarrow>
               (case env_envelopeItems envelope of
                  [] \<Rightarrow> (c_json_error ''Envelope item not found'' 404, [])
                | envelopeItem # _ \<Rightarrow>
                    (case getTeamById co userId (env_teamId envelope) of
                       None \<Rightarrow>
                         (c_json_error
                            ''User does not have access to the team that this envelope is associated with''
                            403, [])
                     | Some team \<Rightarrow>
                         (case item_documentData envelopeItem of
                            None \<Rightarrow> (c_json_error ''Document data not found'' 404, [])
                          | Some dd \<Rightarrow>
                              handleEnvelopeItemFileRequest co
                                \<lparr>title = item_title envelopeItem, status = env_status envelope,
                                 documentData = dd, version = ver, isDownload = True\<rparr>
                                req)))))"

text \<open>\<open>GET /token/:token/envelopeItem/:envelopeItemId\<close>\<close>

definition get_token_envelopeItem ::
  "collaborators \<Rightarrow> Envelope list \<Rightarrow> string \<Rightarrow> string \<Rightarrow> (string \<rightharpoonup> string) \<Rightarrow>
   response \<times> (DocumentDataType \<times> string) list" where
  "get_token_envelopeItem co db token envelopeItemId req =
     (case envelopeItem_findUnique db token envelopeItemId of
        None \<Rightarrow> (c_json_error ''Envelope item not found'' 404, [])
      | Some (envelope, envelopeItem) \<Rightarrow>
          (case item_documentData envelopeItem of
             None \<Rightarrow> (c_json_error ''Document data not found'' 404, [])
           | Some dd \<Rightarrow>
               handleEnvelopeItemFileRequest co
                 \<lparr>title = item_title envelopeItem, status = env_status envelope,
                  documentData = dd, version = signed, isDownload = False\<rparr>
                 req))"

text \<open>\<open>GET /token/:token/envelopeItem/:envelopeItemId/download/:version?\<close>\<close>

definition get_token_envelopeItem_download ::
  "collaborators \<Rightarrow> Envelope list \<Rightarrow> string \<Rightarrow> string \<Rightarrow> Version \<Rightarrow> (string \<rightharpoonup> string) \<Rightarrow>
   response \<times> (DocumentDataType \<times> string) list" where
  "get_token_envelopeItem_download co db token envelopeItemId ver req =
     (case envelopeItem_findUnique db token envelopeItemId of
        None \<Rightarrow> (c_json_error ''Envelope item not found'' 404, [])
      | Some (envelope, envelopeItem) \<Rightarrow>
          (case item_documentData envelopeItem of
             None \<Rightarrow> (c_json_error ''Document data not found'' 404, [])
           | Some dd \<Rightarrow>
               handleEnvelopeItemFileRequest co
                 \<lparr>title = item_title envelopeItem, status = env_status envelope,
                  documentData = dd, version = ver, isDownload = True\<rparr>
                 req))"

text \<open>
  \<open>POST /upload-pdf\<close>. \<open>limit\<close> is \<open>APP_DOCUMENT_UPLOAD_SIZE_LIMIT\<close> (of
  \<open>lib/constants/app\<close>, not among the sources), in megabytes; \<open>file\<close> is the validated
  form's \<open>file\<close>. Whatever the upload throws is caught and answered with 500.
\<close>

definition post_upload_pdf ::
  "upload_env \<Rightarrow> nat \<Rightarrow> File option \<Rightarrow> world \<Rightarrow> response \<times> world" where
  "post_upload_pdf env limit file w =
     (let MAX_FILE_SIZE = limit * 1024 * 1024
      in case file of
           None \<Rightarrow> (c_json_error ''No file provided'' 400, w)
         | Some f \<Rightarrow>
             if file_size f > MAX_FILE_SIZE then (c_json_error ''File too large'' 400, w)
             else
               (case putNormalizedPdfFileServerSide env f w of
                  (Inl e, w') \<Rightarrow> (c_json_error ''Upload failed'' 500, w')
                | (Inr result, w') \<Rightarrow>
                    (\<lparr>res_status = 200,
                      res_headers = [''Content-Type'' \<mapsto> ''application/json''],
                      res_body = JsonDocumentData result\<rparr>, w')))"


section \<open>\<open>queryAuditLogs\<close>\<close>

text \<open>
  The audit log types that the source names (\<open>DOCUMENT_AUDIT_LOG_TYPE\<close> of
  \<open>types/document-audit-logs\<close>), and any other one. Of a row's \<open>data\<close> the where clause
  reads only whether \<open>isResending\<close> is \<open>true\<close>.
\<close>

datatype DOCUMENT_AUDIT_LOG_TYPE =
    DOCUMENT_COMPLETED | DOCUMENT_CREATED | DOCUMENT_DELETED | DOCUMENT_OPENED
  | DOCUMENT_RECIPIENT_COMPLETED | DOCUMENT_RECIPIENT_REJECTED | DOCUMENT_SENT
  | DOCUMENT_MOVED_TO_TEAM | EMAIL_SENT | OTHER_TYPE string

record DocumentAuditLog =
  log_id :: string
  log_envelopeId :: string
  log_type :: DOCUMENT_AUDIT_LOG_TYPE
  log_isResending :: bool
  log_createdAt :: nat

definition RECENT_ACTIVITY_EVENT_TYPES :: "DOCUMENT_AUDIT_LOG_TYPE list" where
  "RECENT_ACTIVITY_EVENT_TYPES =
     [DOCUMENT_COMPLETED, DOCUMENT_CREATED, DOCUMENT_DELETED, DOCUMENT_OPENED,
      DOCUMENT_RECIPIENT_COMPLETED, DOCUMENT_RECIPIENT_REJECTED, DOCUMENT_SENT,
      DOCUMENT_MOVED_TO_TEAM]"

text \<open>The where clause, as the predicate on rows that it denotes.\<close>

definition buildAuditLogWhereClause :: "string \<Rightarrow> bool option \<Rightarrow> DocumentAuditLog \<Rightarrow> bool" where
  "buildAuditLogWhereClause envelopeId filterForRecentActivity =
     (if filterForRecentActivity \<noteq> Some True
      then (\<lambda>row. log_envelopeId row = envelopeId)
      else (\<lambda>row. log_envelopeId row = envelopeId \<and>
                   (log_type row \<in> set RECENT_ACTIVITY_EVENT_TYPES \<or>
                    (log_type row = EMAIL_SENT \<and> log_isResending row))))"

datatype direction = asc | desc

text \<open>
  \<open>prisma.documentAuditLog.findMany({ where, skip, take, orderBy, cursor })\<close>: the rows that
  satisfy \<open>where\<close>, in the order asked for, from the row of the cursor on when there is a
  cursor; of these, \<open>skip\<close> rows are passed over and at most \<open>take\<close> rows returned.
  \<open>sortRows\<close> is the database's ordering of rows by a column and a direction.
  \<open>rows_from_cursor\<close> is the first part: the rows before \<open>skip\<close> and \<open>take\<close> apply.
\<close>

definition rows_from_cursor ::
  "(string \<Rightarrow> direction \<Rightarrow> DocumentAuditLog list \<Rightarrow> DocumentAuditLog list) \<Rightarrow>
   (DocumentAuditLog \<Rightarrow> bool) \<Rightarrow> string \<times> direction \<Rightarrow> string option \<Rightarrow>
   DocumentAuditLog list \<Rightarrow> DocumentAuditLog list" where
  "rows_from_cursor sortRows whereClause orderBy cursor table =
     (let ordered = sortRows (fst orderBy) (snd orderBy) (filter whereClause table)
      in case cursor of
           None \<Rightarrow> ordered
         | Some c \<Rightarrow> dropWhile (\<lambda>row. log_id row \<noteq> c) ordered)"

definition findMany ::
  "(string \<Rightarrow> direction \<Rightarrow> DocumentAuditLog list \<Rightarrow> DocumentAuditLog list) \<Rightarrow>
   (DocumentAuditLog \<Rightarrow> bool) \<Rightarrow> nat \<Rightarrow> nat \<Rightarrow> string \<times> direction \<Rightarrow> string option \<Rightarrow>
   DocumentAuditLog list \<Rightarrow> DocumentAuditLog list" where
  "findMany sortRows whereClause skip tk orderBy cursor table =
     take tk (drop skip (rows_from_cursor sortRows whereClause orderBy cursor table))"

text \<open>\<open>Math.ceil(count / perPage)\<close>: a division by zero gives \<open>Infinity\<close>, or \<open>NaN\<close> for 0 / 0.\<close>

datatype jsnumber = Finite nat | Infinity | NaN

definition ceil_div :: "nat \<Rightarrow> nat \<Rightarrow> jsnumber" where
  "ceil_div n d =
     (if d = 0 then (if n = 0 then NaN else Infinity)
      else Finite ((n + d - 1) div d))"

record FindResultResponse =
  fr_data :: "DocumentAuditLog list"
  fr_count :: nat
  fr_currentPage :: int
  fr_perPage :: nat
  fr_totalPages :: jsnumber
  fr_nextCursor :: "string option"

record AuditLogQueryOptions =
  envelope_id :: string
  page :: "int option"
  perPage :: "nat option"
  orderBy :: "(string \<times> direction) option"
  cursor :: "string option"
  filterForRecentActivity :: "bool option"

text \<open>All of a list parsed, or \<open>None\<close> as soon as one element throws.\<close>

fun map_all :: "('a \<Rightarrow> 'b option) \<Rightarrow> 'a list \<Rightarrow> 'b list option" where
  "map_all f [] = Some []"
| "map_all f (x # xs) =
     (case f x of
        None \<Rightarrow> None
      | Some y \<Rightarrow> map_option ((#) y) (map_all f xs))"

text \<open>
  \<open>parseDocumentAuditLogData\<close> (\<open>utils/document-audit-logs\<close>, not among the sources) is the
  parameter \<open>parse\<close>: \<open>None\<close> when it throws, and then so does \<open>queryAuditLogs\<close>.
  \<open>table\<close> is the \<open>DocumentAuditLog\<close> table. An absent \<open>page\<close> is 1 and an absent
  \<open>perPage\<close> is 30, the defaults of the parameters (\<open>page_of\<close>, \<open>perPage_of\<close>);
  \<open>perPage\<close> is a natural number.
\<close>

definition page_of :: "AuditLogQueryOptions \<Rightarrow> int" where
  "page_of opts = (case page opts of None \<Rightarrow> 1 | Some p \<Rightarrow> p)"

definition perPage_of :: "AuditLogQueryOptions \<Rightarrow> nat" where
  "perPage_of opts = (case perPage opts of None \<Rightarrow> 30 | Some n \<Rightarrow> n)"

definition queryAuditLogs ::
  "(string \<Rightarrow> direction \<Rightarrow> DocumentAuditLog list \<Rightarrow> DocumentAuditLog list) \<Rightarrow>
   (DocumentAuditLog \<Rightarrow> DocumentAuditLog option) \<Rightarrow> DocumentAuditLog list \<Rightarrow>
   AuditLogQueryOptions \<Rightarrow> FindResultResponse option" where
  "queryAuditLogs sortRows parse table opts =
     (let page' = page_of opts;
          perPage' = perPage_of opts;
          orderByColumn = (case orderBy opts of None \<Rightarrow> ''createdAt'' | Some ob \<Rightarrow> fst ob);
          orderByDirection = (case orderBy opts of None \<Rightarrow> desc | Some ob \<Rightarrow> snd ob);
          whereClause = buildAuditLogWhereClause (envelope_id opts) (filterForRecentActivity opts);
          normalizedPage = max page' 1;
          skip = nat (normalizedPage - 1) * perPage';
          rows = findMany sortRows whereClause skip (perPage' + 1)
                   (orderByColumn, orderByDirection)
                   (if truthy_string (cursor opts) then cursor opts else None) table;
          count = length (filter whereClause table)
      in case map_all parse rows of
           None \<Rightarrow> None
         | Some allParsedData \<Rightarrow>
             (let hasNextPage = length allParsedData > perPage';
                  parsedData = (if hasNextPage then take perPage' allParsedData
                                else allParsedData);
                  nextCursor = (if hasNextPage then Some (log_id (allParsedData ! perPage'))
                                else None)
              in Some \<lparr>fr_data = parsedData, fr_count = count,
                       fr_currentPage = normalizedPage, fr_perPage = perPage',
                       fr_totalPages = ceil_div count perPage', fr_nextCursor = nextCursor\<rparr>))"


section \<open>Example data\<close>

text \<open>
  The example of the specification: a 10-byte plaintext PDF stub, \<open>%PDF-1.4\<close>, a line
  feed and \<open>%\<close>. Its Base64 text is \<open>JVBERi0xLjQKJQ==\<close>.
\<close>

definition stub_pdf :: "byte list" where
  "stub_pdf = [0x25, 0x50, 0x44, 0x46, 0x2D, 0x31, 0x2E, 0x34, 0x0A, 0x25]"

definition stub_file :: File where
  "stub_file = \<lparr>name = ''stub.pdf'', mime_type = ''application/pdf'', contents = stub_pdf\<rparr>"

definition empty_world :: world where
  "empty_world = \<lparr>s3_objects = Map.empty, documentData_table = [], put_calls = []\<rparr>"

text \<open>
  Upload environments. In each, \<open>normalizePdf\<close> is the one of the specification, with the
  environment's own PDF parser and a rewriting that leaves the bytes as they are.
  \<open>inline_env\<close> stores in the database row and \<open>s3_env\<close> in the object store; their
  parser finds no encryption. In \<open>rejecting_env\<close> the parser rejects every document, as
  it does an encrypted one; in \<open>encrypted_env\<close> it returns every document with
  \<open>isEncrypted\<close> set.
\<close>

definition upload_env_of :: "(byte list \<Rightarrow> PDFDocument option) \<Rightarrow> string option \<Rightarrow> upload_env" where
  "upload_env_of load transport =
     \<lparr>PDFDocument_load = load,
      normalizePdf = normalizePdf_spec load id,
      NEXT_PUBLIC_UPLOAD_TRANSPORT = transport,
      s3_key_for = (\<lambda>f. if transport = Some ''s3'' then Some (''key/'' @ name f) else None),
      new_id = (\<lambda>n. ''document_data'')\<rparr>"

definition inline_env :: upload_env where
  "inline_env = upload_env_of (\<lambda>bs. Some \<lparr>isEncrypted = False\<rparr>) None"

definition s3_env :: upload_env where
  "s3_env = upload_env_of (\<lambda>bs. Some \<lparr>isEncrypted = False\<rparr>) (Some ''s3'')"

definition rejecting_env :: upload_env where
  "rejecting_env = upload_env_of (\<lambda>bs. None) None"

definition encrypted_env :: upload_env where
  "encrypted_env = upload_env_of (\<lambda>bs. Some \<lparr>isEncrypted = True\<rparr>) None"

text \<open>The row that the inline upload of the stub creates.\<close>

definition stub_documentData :: DocumentData where
  "stub_documentData =
     \<lparr>dd_id = ''document_data'', dd_type = BYTES_64, dd_data = ''JVBERi0xLjQKJQ=='',
      dd_initialData = ''JVBERi0xLjQKJQ==''\<rparr>"

text \<open>
  Two sets of retrieval collaborators: \<open>inline_co\<close> reads with the storage backend of the
  specification, \<open>failing_co\<close> has a storage backend whose every read fails. In both,
  user 1 is a member of team 7 and of no other, and no presign token verifies.
\<close>

definition inline_co :: collaborators where
  "inline_co =
     \<lparr>getFileServerSide = StorageBackend_get empty_world,
      contentDisposition = (\<lambda>filename. ''attachment; filename='' @ filename),
      verifyEmbeddingPresignToken = (\<lambda>t. None),
      getTeamById = (\<lambda>userId teamId. if userId = 1 \<and> teamId = 7 then Some 7 else None)\<rparr>"

definition failing_co :: collaborators where
  "failing_co = inline_co\<lparr>getFileServerSide := (\<lambda>ty dat. None)\<rparr>"

definition stub_options :: HandleEnvelopeItemFileRequestOptions where
  "stub_options =
     \<lparr>title = ''contract.pdf'', status = COMPLETED, documentData = stub_documentData,
      version = signed, isDownload = False\<rparr>"

text \<open>
  A database of one completed envelope of team 7, with one recipient, a QR token and one
  item, the stub.
\<close>

definition example_item :: EnvelopeItem where
  "example_item =
     \<lparr>item_id = ''item_1'', item_title = ''contract.pdf'',
      item_documentData = Some stub_documentData\<rparr>"

definition example_envelope :: Envelope where
  "example_envelope =
     \<lparr>env_id = ''envelope_1'', env_status = COMPLETED, env_teamId = 7,
      env_qrToken = Some ''qr_abc'', env_recipients = [''token_alice''],
      env_envelopeItems = [example_item]\<rparr>"

definition example_db :: "Envelope list" where
  "example_db = [example_envelope]"

text \<open>Audit logs: three rows of one envelope, a database order that keeps the rows as
  they are, and a parser that accepts every row.\<close>

definition example_logs :: "DocumentAuditLog list" where
  "example_logs =
     [\<lparr>log_id = ''log_1'', log_envelopeId = ''envelope_1'', log_type = DOCUMENT_CREATED,
       log_isResending = False, log_createdAt = 3\<rparr>,
      \<lparr>log_id = ''log_2'', log_envelopeId = ''envelope_1'', log_type = DOCUMENT_SENT,
       log_isResending = False, log_createdAt = 2\<rparr>,
      \<lparr>log_id = ''log_3'', log_envelopeId = ''envelope_1'', log_type = DOCUMENT_OPENED,
       log_isResending = False, log_createdAt = 1\<rparr>]"

definition keep_order ::
  "string \<Rightarrow> direction \<Rightarrow> DocumentAuditLog list \<Rightarrow> DocumentAuditLog list" where
  "keep_order column dir rows = rows"

definition example_query :: "int \<Rightarrow> nat \<Rightarrow> AuditLogQueryOptions" where
  "example_query p n =
     \<lparr>envelope_id = ''envelope_1'', page = Some p, perPage = Some n, orderBy = None,
      cursor = None, filterForRecentActivity = None\<rparr>"


section \<open>Facts about the hash\<close>

text \<open>Rules that let the simplifier run the hash on a concrete message.\<close>

lemma upt_0_numeral: "[0..<numeral n] = 0 # [Suc 0..<numeral n]"
  by (simp add: upt_rec)

lemma upt_Suc0_numeral:
  "[Suc 0..<numeral n] = (if Suc 0 < numeral n then Suc 0 # [2..<numeral n] else [])"
  by (simp add: upt_rec numeral_2_eq_2 del: upt_Suc)

lemma replicate_numeral: "replicate (numeral n) x = x # replicate (pred_numeral n) x"
  by (simp add: numeral_eq_Suc)

lemmas sha256_eval =
  sha256_def pad_def be_bytes_def compress_def schedule_def schedule_step_def rounds_def
  K256_def H256_def add32_def rotr_def Ch_def Maj_def Sigma0_def Sigma1_def sigma0_def
  sigma1_def toHex_def hexdigit_def upt_0_numeral upt_Suc0_numeral replicate_numeral

text \<open>The hash of the stub's Base64 text, and the hash of the stub's bytes.\<close>

lemma sha256_stub_text:
  "toHex (sha256 (utf8ToBytes ''JVBERi0xLjQKJQ=='')) =
     ''68585fb4d9126164ee1c6be9c49ee15c1031d23cd95c37ed4b6647836c4fe2d5''"
  by (simp add: sha256_eval utf8ToBytes_def)

lemma sha256_stub_bytes:
  "toHex (sha256 stub_pdf) =
     ''1620e31e152332bd7cde6230997c5462dbca64eba72d832bb46c04d3af022250''"
  by (simp add: sha256_eval stub_pdf_def)

text \<open>The digest has 32 bytes, so its hexadecimal text has 64 characters.\<close>

lemma length_round_step: "length (round_step kw st) = length st"
  by (cases "(kw, st)" rule: round_step.cases) (simp_all add: Let_def)

lemma length_fold_round_step: "length (fold round_step kws st) = length st"
  by (induction kws arbitrary: st) (simp_all add: length_round_step)

lemma length_compress: "length (compress hs block) = length hs"
  by (simp add: compress_def rounds_def length_fold_round_step)

lemma length_foldl_compress: "length (foldl compress hs blocks) = length hs"
  by (induction blocks arbitrary: hs) (simp_all add: length_compress)

lemma length_be_bytes: "length (be_bytes k n) = k"
  by (simp add: be_bytes_def)

lemma length_concat_be_bytes: "length (concat (map (be_bytes 4) ws)) = 4 * length ws"
  by (induction ws) (simp_all add: length_be_bytes)

lemma length_sha256: "length (sha256 m) = 32"
  by (simp add: sha256_def Let_def length_concat_be_bytes length_foldl_compress H256_def)

lemma length_toHex: "length (toHex bs) = 2 * length bs"
  by (induction bs) (simp_all add: toHex_def)

lemma hexdigit_in: "n < 16 \<Longrightarrow> hexdigit n \<in> set ''0123456789abcdef''"
proof -
  assume "n < 16"
  then have "n \<in> {0..<16}" by simp
  also have "{0..<16} = set [0..<16::nat]" by simp
  finally have "n \<in> set [0, 1, 2, 3, 4, 5, 6, 7, 8, 9, 10, 11, 12, 13, 14, 15::nat]"
    by (simp add: upt_0_numeral upt_Suc0_numeral)
  then show ?thesis by (auto simp: hexdigit_def)
qed

lemma unat_byte_less: "unat (b :: byte) < 256"
  using unsigned_less [of b, where ?'a = nat] by simp

lemma toHex_chars: "set (toHex bs) \<subseteq> set ''0123456789abcdef''"
proof -
  have "unat b div 16 < 16" for b :: byte
    using unat_byte_less [of b] by simp
  moreover have "unat b mod 16 < 16" for b :: byte by simp
  ultimately show ?thesis
    unfolding toHex_def using hexdigit_in by (induction bs) auto
qed


section \<open>Facts about Base64\<close>

lemma index_of_nth: "distinct xs \<Longrightarrow> i < length xs \<Longrightarrow> index_of (xs ! i) xs = Some i"
proof (induction xs arbitrary: i)
  case Nil
  then show ?case by simp
next
  case (Cons x xs)
  show ?case
  proof (cases i)
    case 0
    then show ?thesis by simp
  next
    case (Suc j)
    with Cons.prems have "j < length xs" "xs ! j \<noteq> x" "distinct xs" by auto
    with Cons.IH [of j] Suc show ?thesis by simp
  qed
qed

lemma distinct_base64_alphabet: "distinct base64_alphabet"
  by (simp add: base64_alphabet_def)

lemma length_base64_alphabet: "length base64_alphabet = 64"
  by (simp add: base64_alphabet_def)

lemma base64_value_char: "i < 64 \<Longrightarrow> base64_value (base64_char i) = Some i"
  unfolding base64_value_def base64_char_def
  by (rule index_of_nth) (simp_all add: distinct_base64_alphabet length_base64_alphabet)

lemma pad_notin_alphabet: "CHR ''='' \<notin> set base64_alphabet"
  by (simp add: base64_alphabet_def)

lemma base64_char_not_pad: "i < 64 \<Longrightarrow> base64_char i \<noteq> CHR ''=''"
proof
  assume "i < 64" and eq: "base64_char i = CHR ''=''"
  then have "base64_alphabet ! i \<in> set base64_alphabet"
    by (simp add: length_base64_alphabet)
  with eq pad_notin_alphabet show False
    by (simp add: base64_char_def)
qed

text \<open>The arithmetic of a group: 24 bits as three bytes and as four 6-bit digits.\<close>

lemma digit_less: "n div 4096 mod 64 < (64::nat)" "n div 64 mod 64 < (64::nat)" "n mod 64 < (64::nat)"
  by simp_all

lemma group_first_digit:
  "a < 256 \<Longrightarrow> b < 256 \<Longrightarrow> c < (256::nat) \<Longrightarrow> (a * 65536 + b * 256 + c) div 262144 < 64"
  by simp

lemma group_digits:
  "n div 262144 * 262144 + (n div 4096 mod 64) * 4096 + (n div 64 mod 64) * 64 + n mod 64 = (n::nat)"
proof -
  have a: "n div 4096 = n div 64 div 64" "n div 262144 = n div 64 div 64 div 64"
    by (simp_all add: div_mult2_eq [symmetric])
  have "n = n div 64 * 64 + n mod 64" by simp
  moreover have "n div 64 = n div 64 div 64 * 64 + n div 64 mod 64" by simp
  moreover have "n div 64 div 64 = n div 64 div 64 div 64 * 64 + n div 64 div 64 mod 64" by simp
  ultimately show ?thesis unfolding a by linarith
qed

lemma group_byte1:
  "a < 256 \<Longrightarrow> b < 256 \<Longrightarrow> c < (256::nat) \<Longrightarrow> (a * 65536 + b * 256 + c) div 65536 = a"
  by simp

lemma group_byte2:
  "a < 256 \<Longrightarrow> b < 256 \<Longrightarrow> c < (256::nat) \<Longrightarrow> (a * 65536 + b * 256 + c) div 256 mod 256 = b"
proof -
  assume h: "a < 256" "b < 256" "c < 256"
  have "a * 65536 + b * 256 + c = (a * 256 + b) * 256 + c" by simp
  with h have "(a * 65536 + b * 256 + c) div 256 = a * 256 + b" by simp
  with h show ?thesis by simp
qed

lemma group_byte3: "(a * 65536 + b * 256 + c) mod 256 = c mod (256::nat)"
proof -
  have "a * 65536 + b * 256 + c = c + 256 * (a * 256 + b)" by simp
  then show ?thesis by (simp only: mod_mult_self2)
qed

lemma one_byte_group:
  fixes u :: nat
  assumes "u < 256"
  shows "u * 16 div 64 < 64" "u * 16 mod 64 mod 16 = 0"
    "(u * 16 div 64) * 4 + u * 16 mod 64 div 16 = u"
proof -
  have a: "u * 16 div 64 = u div 4" by simp
  have b: "u * 16 mod 64 = (u mod 4) * 16"
    using mult_mod_right [of 16 u 4] by (simp add: mult.commute)
  show "u * 16 div 64 < 64" using assms by (simp add: a)
  show "u * 16 mod 64 mod 16 = 0" by (simp add: b)
  show "(u * 16 div 64) * 4 + u * 16 mod 64 div 16 = u" by (simp add: a b)
qed

lemma two_byte_group:
  fixes m :: nat
  assumes "m < 65536"
  shows "m * 4 div 4096 < 64" "m * 4 mod 64 mod 4 = 0"
    "(m * 4 div 4096) * 1024 + (m * 4 div 64 mod 64) * 16 + m * 4 mod 64 div 4 = m"
proof -
  have a: "m * 4 div 4096 = m div 1024" "m * 4 div 64 = m div 16" by simp_all
  have b: "m * 4 mod 64 = (m mod 16) * 4"
    using mult_mod_right [of 4 m 16] by (simp add: mult.commute)
  have c: "m div 1024 = m div 16 div 64" by (simp add: div_mult2_eq [symmetric])
  show "m * 4 div 4096 < 64" using assms by (simp add: a)
  show "m * 4 mod 64 mod 4 = 0" by (simp add: b)
  have e1: "m = m div 16 * 16 + m mod 16" by simp
  have e2: "m div 16 = m div 16 div 64 * 64 + m div 16 mod 64" by simp
  have "m div 16 div 64 * 1024 + m div 16 mod 64 * 16 + m mod 16 = m"
    using e1 e2 by linarith
  then show "(m * 4 div 4096) * 1024 + (m * 4 div 64 mod 64) * 16 + m * 4 mod 64 div 4 = m"
    unfolding a b c by simp
qed

text \<open>Decoding undoes encoding, for every list of bytes.\<close>

lemma base64_decode_encode: "base64_decode (base64_encode bs) = Some bs"
proof (induction bs rule: base64_encode.induct)
  case 1
  show ?case by simp
next
  case (2 a)
  have u: "unat a < 256" by (rule unat_byte_less)
  show ?case
    using one_byte_group [OF u]
    by (simp add: base64_value_char digit_less)
next
  case (3 a b)
  have "unat a < 256" "unat b < 256" by (rule unat_byte_less)+
  then have m: "unat a * 256 + unat b < 65536" by simp
  have ab: "(unat a * 256 + unat b) div 256 = unat a" "(unat a * 256 + unat b) mod 256 = unat b"
    using \<open>unat b < 256\<close> by simp_all
  show ?case
    using two_byte_group [OF m] ab
    by (simp add: base64_value_char base64_char_not_pad digit_less Let_def)
next
  case (4 a b c rest)
  have h: "unat a < 256" "unat b < 256" "unat c < 256" by (rule unat_byte_less)+
  define n where "n = unat a * 65536 + unat b * 256 + unat c"
  have n1: "n div 262144 < 64" unfolding n_def by (rule group_first_digit [OF h])
  have bytes: "(of_nat (n div 65536) :: byte) = a" "(of_nat (n div 256 mod 256) :: byte) = b"
    "(of_nat (n mod 256) :: byte) = c"
    unfolding n_def
    using group_byte1 [OF h] group_byte2 [OF h] group_byte3 [of "unat a" "unat b" "unat c"] h
    by simp_all
  have "base64_decode (base64_encode (a # b # c # rest)) =
     map_option (\<lambda>bs. of_nat (n div 65536) # of_nat (n div 256 mod 256) # of_nat (n mod 256) # bs)
       (base64_decode (base64_encode rest))"
    using n1 group_digits [of n]
    by (simp add: base64_value_char base64_char_not_pad digit_less Let_def n_def [symmetric])
  with "4.IH" bytes show ?case by simp
qed

text \<open>The Base64 text of the stub.\<close>

lemma base64_char_eval:
  "base64_char 9 = CHR ''J''" "base64_char 21 = CHR ''V''" "base64_char (Suc 0) = CHR ''B''"
  "base64_char 4 = CHR ''E''" "base64_char 17 = CHR ''R''" "base64_char 34 = CHR ''i''"
  "base64_char 52 = CHR ''0''" "base64_char 49 = CHR ''x''" "base64_char 11 = CHR ''L''"
  "base64_char 35 = CHR ''j''" "base64_char 16 = CHR ''Q''" "base64_char 10 = CHR ''K''"
  by (simp_all add: base64_char_def base64_alphabet_def)

lemma base64_encode_stub: "base64_encode stub_pdf = ''JVBERi0xLjQKJQ==''"
  by (simp add: stub_pdf_def base64_char_eval)

lemma base64_decode_stub: "base64_decode ''JVBERi0xLjQKJQ=='' = Some stub_pdf"
  using base64_decode_encode [of stub_pdf] by (simp only: base64_encode_stub)

declare base64_encode.simps [simp del] base64_decode.simps [simp del]


section \<open>Facts about the handler\<close>

text \<open>The four ways through \<open>handleEnvelopeItemFileRequest\<close>, and the response of each.\<close>

lemma handle_not_modified:
  "req ''If-None-Match'' = Some (etag opts) \<Longrightarrow> \<not> isDownload opts \<Longrightarrow>
   handleEnvelopeItemFileRequest co opts req =
     (\<lparr>res_status = 304, res_headers = Map.empty, res_body = NoBody\<rparr>, [])"
  by (simp add: handleEnvelopeItemFileRequest_def)

lemma handle_not_found:
  "\<not> (req ''If-None-Match'' = Some (etag opts) \<and> \<not> isDownload opts) \<Longrightarrow>
   getFileServerSide co (dd_type (documentData opts)) (documentDataToUse opts) = None \<Longrightarrow>
   handleEnvelopeItemFileRequest co opts req =
     (c_json_error ''File not found'' 404, [(dd_type (documentData opts), documentDataToUse opts)])"
  by (auto simp: handleEnvelopeItemFileRequest_def)

lemma handle_ok_view:
  "req ''If-None-Match'' \<noteq> Some (etag opts) \<Longrightarrow> \<not> isDownload opts \<Longrightarrow>
   getFileServerSide co (dd_type (documentData opts)) (documentDataToUse opts) = Some file \<Longrightarrow>
   handleEnvelopeItemFileRequest co opts req =
     (\<lparr>res_status = 200,
       res_headers = [''Content-Type'' \<mapsto> ''application/pdf'', ''ETag'' \<mapsto> etag opts,
         ''Cache-Control'' \<mapsto> (if status opts = COMPLETED
            then ''public, max-age=31536000, immutable''
            else ''public, max-age=0, must-revalidate'')],
       res_body = FileBody file\<rparr>,
      [(dd_type (documentData opts), documentDataToUse opts)])"
  by (auto simp: handleEnvelopeItemFileRequest_def)

lemma handle_ok_download:
  "isDownload opts \<Longrightarrow>
   getFileServerSide co (dd_type (documentData opts)) (documentDataToUse opts) = Some file \<Longrightarrow>
   handleEnvelopeItemFileRequest co opts req =
     (\<lparr>res_status = 200,
       res_headers = [''Content-Type'' \<mapsto> ''application/pdf'', ''ETag'' \<mapsto> etag opts,
         ''Content-Disposition'' \<mapsto> contentDisposition co
            (replace_pdf_suffix (title opts) @
             (if version opts = signed then ''_signed.pdf'' else ''.pdf'')),
         ''Cache-Control'' \<mapsto> ''no-cache, no-store, must-revalidate'',
         ''Pragma'' \<mapsto> ''no-cache'', ''Expires'' \<mapsto> ''0''],
       res_body = FileBody file\<rparr>,
      [(dd_type (documentData opts), documentDataToUse opts)])"
  by (auto simp: handleEnvelopeItemFileRequest_def Let_def)

lemma handle_cases:
  obtains
    (not_modified) "req ''If-None-Match'' = Some (etag opts)" "\<not> isDownload opts"
  | (not_found) "\<not> (req ''If-None-Match'' = Some (etag opts) \<and> \<not> isDownload opts)"
      "getFileServerSide co (dd_type (documentData opts)) (documentDataToUse opts) = None"
  | (view) f where "req ''If-None-Match'' \<noteq> Some (etag opts)" "\<not> isDownload opts"
      "getFileServerSide co (dd_type (documentData opts)) (documentDataToUse opts) = Some f"
  | (download) f where "isDownload opts"
      "getFileServerSide co (dd_type (documentData opts)) (documentDataToUse opts) = Some f"
  by (cases "getFileServerSide co (dd_type (documentData opts)) (documentDataToUse opts)") auto

text \<open>The stub's options: the data in use, its ETag, and what the storage returns for it.\<close>

lemma stub_documentDataToUse:
  "documentData opts = stub_documentData \<Longrightarrow> documentDataToUse opts = ''JVBERi0xLjQKJQ==''"
  by (simp add: documentDataToUse_def stub_documentData_def)

lemma stub_etag:
  "documentData opts = stub_documentData \<Longrightarrow>
   etag opts = ''68585fb4d9126164ee1c6be9c49ee15c1031d23cd95c37ed4b6647836c4fe2d5''"
  by (simp only: etag_def stub_documentDataToUse sha256_stub_text)

lemma inline_get_stub:
  "documentData opts = stub_documentData \<Longrightarrow>
   getFileServerSide inline_co (dd_type (documentData opts)) (documentDataToUse opts) =
     Some stub_pdf"
  by (simp add: stub_documentDataToUse)
     (simp add: inline_co_def StorageBackend_get_def base64_decode_stub stub_documentData_def)

lemma failing_get:
  "getFileServerSide failing_co ty dat = None"
  by (simp add: failing_co_def)


lemma documentDataToUse_isDownload [simp]:
  "documentDataToUse (opts\<lparr>isDownload := d\<rparr>) = documentDataToUse opts"
  by (simp add: documentDataToUse_def)

lemma etag_isDownload [simp]: "etag (opts\<lparr>isDownload := d\<rparr>) = etag opts"
  by (simp add: etag_def)


section \<open>Conditional responses and caching\<close>

text \<open>
  C2, as the claim states it, fails: the token that the handler compares with
  \<open>If-None-Match\<close> is not the fingerprint of the bytes it serves. A view request for the
  stub whose \<open>If-None-Match\<close> is the hash of the stub's bytes, \<open>1620...\<close>, is answered 200
  with the full body; a view request whose \<open>If-None-Match\<close> is \<open>6858...\<close>, the hash of
  the record's Base64 text, is answered 304.
\<close>

theorem conditional_response_counterexample:
  "toHex (sha256 stub_pdf) = ''1620e31e152332bd7cde6230997c5462dbca64eba72d832bb46c04d3af022250''
   \<and> res_status (fst (handleEnvelopeItemFileRequest inline_co stub_options
        [''If-None-Match'' \<mapsto> ''1620e31e152332bd7cde6230997c5462dbca64eba72d832bb46c04d3af022250''])) = 200
   \<and> res_body (fst (handleEnvelopeItemFileRequest inline_co stub_options
        [''If-None-Match'' \<mapsto> ''1620e31e152332bd7cde6230997c5462dbca64eba72d832bb46c04d3af022250''])) =
          FileBody stub_pdf
   \<and> res_status (fst (handleEnvelopeItemFileRequest inline_co stub_options
        [''If-None-Match'' \<mapsto> ''68585fb4d9126164ee1c6be9c49ee15c1031d23cd95c37ed4b6647836c4fe2d5''])) = 304"
proof -
  have dd: "documentData stub_options = stub_documentData"
    by (simp add: stub_options_def)
  have view: "\<not> isDownload stub_options"
    by (simp add: stub_options_def)
  have other: "[''If-None-Match'' \<mapsto> ''1620e31e152332bd7cde6230997c5462dbca64eba72d832bb46c04d3af022250'']
      ''If-None-Match'' \<noteq> Some (etag stub_options)"
    by (simp add: stub_etag [OF dd])
  have same: "[''If-None-Match'' \<mapsto> ''68585fb4d9126164ee1c6be9c49ee15c1031d23cd95c37ed4b6647836c4fe2d5'']
      ''If-None-Match'' = Some (etag stub_options)"
    by (simp add: stub_etag [OF dd])
  show ?thesis
    by (simp add: sha256_stub_bytes
        handle_ok_view [where req = "[''If-None-Match'' \<mapsto> ''1620e31e152332bd7cde6230997c5462dbca64eba72d832bb46c04d3af022250'']",
          OF other view inline_get_stub [OF dd]]
        handle_not_modified [where req = "[''If-None-Match'' \<mapsto> ''68585fb4d9126164ee1c6be9c49ee15c1031d23cd95c37ed4b6647836c4fe2d5'']",
          OF same view])
qed

text \<open>
  C2, amended. The handler answers 304 exactly when the request's \<open>If-None-Match\<close> is
  the ETag that the handler issues, \<open>etag\<close>, the hash of the stored data string that the
  version selects, and the request is not a download; a 304 has no body. The same request
  as a download, whatever its \<open>If-None-Match\<close>, is answered 200 with the stored bytes as
  its body, given that the storage returns them.
\<close>

theorem conditional_response:
  "(res_status (fst (handleEnvelopeItemFileRequest co opts req)) = 304 \<longleftrightarrow>
      req ''If-None-Match'' = Some (etag opts) \<and> \<not> isDownload opts)
   \<and> (res_status (fst (handleEnvelopeItemFileRequest co opts req)) = 304 \<longrightarrow>
        res_body (fst (handleEnvelopeItemFileRequest co opts req)) = NoBody)
   \<and> (getFileServerSide co (dd_type (documentData opts)) (documentDataToUse opts) = Some file \<longrightarrow>
        res_status (fst (handleEnvelopeItemFileRequest co (opts\<lparr>isDownload := True\<rparr>) req)) = 200 \<and>
        res_body (fst (handleEnvelopeItemFileRequest co (opts\<lparr>isDownload := True\<rparr>) req)) =
          FileBody file)"
proof -
  have p1: "res_status (fst (handleEnvelopeItemFileRequest co opts req)) = 304 \<longleftrightarrow>
      req ''If-None-Match'' = Some (etag opts) \<and> \<not> isDownload opts"
    by (cases rule: handle_cases [where req = req and opts = opts and co = co])
       (auto simp: handle_not_modified handle_not_found handle_ok_view handle_ok_download
          c_json_error_def)
  have p2: "res_status (fst (handleEnvelopeItemFileRequest co opts req)) = 304 \<Longrightarrow>
      res_body (fst (handleEnvelopeItemFileRequest co opts req)) = NoBody"
    unfolding p1 by (simp add: handle_not_modified)
  have p3: "res_status (fst (handleEnvelopeItemFileRequest co (opts\<lparr>isDownload := True\<rparr>) req)) = 200 \<and>
      res_body (fst (handleEnvelopeItemFileRequest co (opts\<lparr>isDownload := True\<rparr>) req)) =
        FileBody file"
    if "getFileServerSide co (dd_type (documentData opts)) (documentDataToUse opts) = Some file"
    using that handle_ok_download [of "opts\<lparr>isDownload := True\<rparr>" co "file" req]
    by simp
  from p1 p2 p3 show ?thesis by blast
qed

theorem conditional_response_witness:
  "res_status (fst (handleEnvelopeItemFileRequest inline_co stub_options
      [''If-None-Match'' \<mapsto> ''68585fb4d9126164ee1c6be9c49ee15c1031d23cd95c37ed4b6647836c4fe2d5''])) = 304
   \<and> res_body (fst (handleEnvelopeItemFileRequest inline_co stub_options
      [''If-None-Match'' \<mapsto> ''68585fb4d9126164ee1c6be9c49ee15c1031d23cd95c37ed4b6647836c4fe2d5''])) = NoBody
   \<and> res_status (fst (handleEnvelopeItemFileRequest inline_co (stub_options\<lparr>isDownload := True\<rparr>)
      [''If-None-Match'' \<mapsto> ''68585fb4d9126164ee1c6be9c49ee15c1031d23cd95c37ed4b6647836c4fe2d5''])) = 200
   \<and> res_body (fst (handleEnvelopeItemFileRequest inline_co (stub_options\<lparr>isDownload := True\<rparr>)
      [''If-None-Match'' \<mapsto> ''68585fb4d9126164ee1c6be9c49ee15c1031d23cd95c37ed4b6647836c4fe2d5''])) =
        FileBody stub_pdf"
proof -
  have dd: "documentData stub_options = stub_documentData"
    by (simp add: stub_options_def)
  have view: "\<not> isDownload stub_options"
    by (simp add: stub_options_def)
  show ?thesis
    using conditional_response [of inline_co stub_options
        "[''If-None-Match'' \<mapsto> ''68585fb4d9126164ee1c6be9c49ee15c1031d23cd95c37ed4b6647836c4fe2d5'']"
        stub_pdf]
      stub_etag [OF dd] inline_get_stub [OF dd] view
    by simp
qed


lemma stub_served:
  assumes "documentData opts = stub_documentData"
  shows "res_status (fst (handleEnvelopeItemFileRequest inline_co opts Map.empty)) = 200"
    and "res_body (fst (handleEnvelopeItemFileRequest inline_co opts Map.empty)) = FileBody stub_pdf"
proof -
  have "res_status (fst (handleEnvelopeItemFileRequest inline_co opts Map.empty)) = 200 \<and>
      res_body (fst (handleEnvelopeItemFileRequest inline_co opts Map.empty)) = FileBody stub_pdf"
  proof (cases "isDownload opts")
    case True
    then show ?thesis
      by (simp add: handle_ok_download [OF True inline_get_stub [OF assms]])
  next
    case False
    have "Map.empty ''If-None-Match'' \<noteq> Some (etag opts)" by simp
    then show ?thesis
      by (simp add: handle_ok_view [OF _ False inline_get_stub [OF assms]])
  qed
  then show "res_status (fst (handleEnvelopeItemFileRequest inline_co opts Map.empty)) = 200"
    and "res_body (fst (handleEnvelopeItemFileRequest inline_co opts Map.empty)) = FileBody stub_pdf"
    by simp_all
qed

text \<open>
  C4, as the claim states it, fails on a 304: the handler returns it before it sets any
  header, so the not-modified answer to a view of a COMPLETED envelope has no
  \<open>Cache-Control\<close> header at all.
\<close>

theorem cache_control_counterexample:
  "status stub_options = COMPLETED
   \<and> \<not> isDownload stub_options
   \<and> res_status (fst (handleEnvelopeItemFileRequest inline_co stub_options
        [''If-None-Match'' \<mapsto> ''68585fb4d9126164ee1c6be9c49ee15c1031d23cd95c37ed4b6647836c4fe2d5''])) = 304
   \<and> res_headers (fst (handleEnvelopeItemFileRequest inline_co stub_options
        [''If-None-Match'' \<mapsto> ''68585fb4d9126164ee1c6be9c49ee15c1031d23cd95c37ed4b6647836c4fe2d5'']))
        ''Cache-Control'' = None"
proof -
  have dd: "documentData stub_options = stub_documentData"
    by (simp add: stub_options_def)
  have view: "\<not> isDownload stub_options"
    by (simp add: stub_options_def)
  have same: "[''If-None-Match'' \<mapsto> ''68585fb4d9126164ee1c6be9c49ee15c1031d23cd95c37ed4b6647836c4fe2d5'']
      ''If-None-Match'' = Some (etag stub_options)"
    by (simp add: stub_etag [OF dd])
  show ?thesis
    using view
    by (simp add: handle_not_modified [where req = "[''If-None-Match'' \<mapsto> ''68585fb4d9126164ee1c6be9c49ee15c1031d23cd95c37ed4b6647836c4fe2d5'']",
          OF same view])
       (simp add: stub_options_def)
qed

text \<open>
  C4, amended. On every response with status 200, the \<open>Cache-Control\<close> header is a
  function of the envelope's status and of \<open>isDownload\<close> alone: every download gets the
  no-store policy, with immediate expiry; a view of a COMPLETED envelope gets the long-lived
  immutable policy; a view of any other status gets \<open>max-age=0, must-revalidate\<close>. A 304
  has no \<open>Cache-Control\<close> header.
\<close>

theorem cache_control_policy:
  "(res_status (fst (handleEnvelopeItemFileRequest co opts req)) = 200 \<longrightarrow>
      res_headers (fst (handleEnvelopeItemFileRequest co opts req)) ''Cache-Control'' =
        Some (if isDownload opts then ''no-cache, no-store, must-revalidate''
              else if status opts = COMPLETED then ''public, max-age=31536000, immutable''
              else ''public, max-age=0, must-revalidate'')
      \<and> (isDownload opts \<longrightarrow>
           res_headers (fst (handleEnvelopeItemFileRequest co opts req)) ''Expires'' = Some ''0'' \<and>
           res_headers (fst (handleEnvelopeItemFileRequest co opts req)) ''Pragma'' =
             Some ''no-cache''))
   \<and> (res_status (fst (handleEnvelopeItemFileRequest co opts req)) = 304 \<longrightarrow>
      res_headers (fst (handleEnvelopeItemFileRequest co opts req)) ''Cache-Control'' = None)"
proof (cases rule: handle_cases [where req = req and opts = opts and co = co])
  case not_modified
  then show ?thesis by (simp add: handle_not_modified)
next
  case not_found
  then show ?thesis by (simp add: handle_not_found c_json_error_def)
next
  case (view f)
  then show ?thesis by (simp add: handle_ok_view)
next
  case (download f)
  then show ?thesis by (simp add: handle_ok_download)
qed

theorem cache_control_policy_witness:
  "res_headers (fst (handleEnvelopeItemFileRequest inline_co stub_options Map.empty))
      ''Cache-Control'' = Some ''public, max-age=31536000, immutable''
   \<and> res_headers (fst (handleEnvelopeItemFileRequest inline_co (stub_options\<lparr>status := DRAFT\<rparr>)
        Map.empty)) ''Cache-Control'' = Some ''public, max-age=0, must-revalidate''
   \<and> res_headers (fst (handleEnvelopeItemFileRequest inline_co
        (stub_options\<lparr>isDownload := True\<rparr>) Map.empty)) ''Cache-Control'' =
          Some ''no-cache, no-store, must-revalidate''
   \<and> res_headers (fst (handleEnvelopeItemFileRequest inline_co
        (stub_options\<lparr>isDownload := True\<rparr>) Map.empty)) ''Expires'' = Some ''0''
   \<and> res_headers (fst (handleEnvelopeItemFileRequest inline_co (stub_options\<lparr>status := DRAFT\<rparr>)
        [''If-None-Match'' \<mapsto> ''68585fb4d9126164ee1c6be9c49ee15c1031d23cd95c37ed4b6647836c4fe2d5'']))
        ''Cache-Control'' = None"
proof -
  have a: "res_status (fst (handleEnvelopeItemFileRequest inline_co stub_options Map.empty)) = 200"
    by (rule stub_served) (simp add: stub_options_def)
  have b: "res_status (fst (handleEnvelopeItemFileRequest inline_co
      (stub_options\<lparr>status := DRAFT\<rparr>) Map.empty)) = 200"
    by (rule stub_served) (simp add: stub_options_def)
  have c: "res_status (fst (handleEnvelopeItemFileRequest inline_co
      (stub_options\<lparr>isDownload := True\<rparr>) Map.empty)) = 200"
    by (rule stub_served) (simp add: stub_options_def)
  have dd: "documentData (stub_options\<lparr>status := DRAFT\<rparr>) = stub_documentData"
    by (simp add: stub_options_def)
  have view: "\<not> isDownload (stub_options\<lparr>status := DRAFT\<rparr>)"
    by (simp add: stub_options_def)
  have same: "[''If-None-Match'' \<mapsto> ''68585fb4d9126164ee1c6be9c49ee15c1031d23cd95c37ed4b6647836c4fe2d5'']
      ''If-None-Match'' = Some (etag (stub_options\<lparr>status := DRAFT\<rparr>))"
    by (simp add: stub_etag [OF dd])
  have d: "res_status (fst (handleEnvelopeItemFileRequest inline_co (stub_options\<lparr>status := DRAFT\<rparr>)
      [''If-None-Match'' \<mapsto> ''68585fb4d9126164ee1c6be9c49ee15c1031d23cd95c37ed4b6647836c4fe2d5''])) = 304"
    by (simp add: handle_not_modified [where req = "[''If-None-Match'' \<mapsto> ''68585fb4d9126164ee1c6be9c49ee15c1031d23cd95c37ed4b6647836c4fe2d5'']",
          OF same view])
  show ?thesis
    using cache_control_policy [of inline_co stub_options Map.empty]
      cache_control_policy [of inline_co "stub_options\<lparr>status := DRAFT\<rparr>" Map.empty]
      cache_control_policy [of inline_co "stub_options\<lparr>isDownload := True\<rparr>" Map.empty]
      cache_control_policy [of inline_co "stub_options\<lparr>status := DRAFT\<rparr>"
        "[''If-None-Match'' \<mapsto> ''68585fb4d9126164ee1c6be9c49ee15c1031d23cd95c37ed4b6647836c4fe2d5'']"]
      a b c d
    by (simp add: stub_options_def)
qed

text \<open>
  C9. When the handler answers 304 it has made no call of \<open>getFileServerSide\<close>; the
  answer does not depend on the collaborators at all, since the ETag is computed from the
  \<open>DocumentData\<close> record alone.
\<close>

theorem not_modified_reads_nothing:
  assumes "res_status (fst (handleEnvelopeItemFileRequest co opts req)) = 304"
  shows "snd (handleEnvelopeItemFileRequest co opts req) = []
    \<and> handleEnvelopeItemFileRequest co' opts req = handleEnvelopeItemFileRequest co opts req"
proof (cases rule: handle_cases [where req = req and opts = opts and co = co])
  case not_modified
  then show ?thesis by (simp add: handle_not_modified)
next
  case not_found
  with assms show ?thesis by (simp add: handle_not_found c_json_error_def)
next
  case (view f)
  with assms show ?thesis by (simp add: handle_ok_view)
next
  case (download f)
  with assms show ?thesis by (simp add: handle_ok_download)
qed

theorem not_modified_reads_nothing_witness:
  "snd (handleEnvelopeItemFileRequest failing_co stub_options
      [''If-None-Match'' \<mapsto> ''68585fb4d9126164ee1c6be9c49ee15c1031d23cd95c37ed4b6647836c4fe2d5'']) = []
   \<and> handleEnvelopeItemFileRequest inline_co stub_options
      [''If-None-Match'' \<mapsto> ''68585fb4d9126164ee1c6be9c49ee15c1031d23cd95c37ed4b6647836c4fe2d5''] =
     handleEnvelopeItemFileRequest failing_co stub_options
      [''If-None-Match'' \<mapsto> ''68585fb4d9126164ee1c6be9c49ee15c1031d23cd95c37ed4b6647836c4fe2d5'']"
proof -
  have dd: "documentData stub_options = stub_documentData"
    by (simp add: stub_options_def)
  have view: "\<not> isDownload stub_options"
    by (simp add: stub_options_def)
  have "res_status (fst (handleEnvelopeItemFileRequest failing_co stub_options
      [''If-None-Match'' \<mapsto> ''68585fb4d9126164ee1c6be9c49ee15c1031d23cd95c37ed4b6647836c4fe2d5''])) = 304"
    using stub_etag [OF dd] view by (simp add: handle_not_modified)
  from not_modified_reads_nothing [OF this, of inline_co] show ?thesis .
qed


section \<open>Storage failures\<close>

lemma example_token_lookup:
  "envelopeItem_findUnique example_db ''token_alice'' ''item_1'' = Some (example_envelope, example_item)"
  by (simp add: envelopeItem_findUnique_def example_db_def example_envelope_def example_item_def
      startsWith_def)

lemma example_token_route:
  "get_token_envelopeItem co example_db ''token_alice'' ''item_1'' req =
     handleEnvelopeItemFileRequest co stub_options req"
  by (simp add: get_token_envelopeItem_def example_token_lookup)
     (simp add: example_item_def example_envelope_def stub_options_def)

text \<open>
  C7, as the claim states it, fails: a request with a valid recipient token, for an item
  whose document data exists, is answered 404 when the storage backend fails, not 500.
  (With a working backend the same request is answered 200.)
\<close>

theorem storage_failure_counterexample:
  "res_status (fst (get_token_envelopeItem failing_co example_db ''token_alice'' ''item_1''
      Map.empty)) = 404
   \<and> res_body (fst (get_token_envelopeItem failing_co example_db ''token_alice'' ''item_1''
      Map.empty)) = JsonError ''File not found''
   \<and> res_status (fst (get_token_envelopeItem inline_co example_db ''token_alice'' ''item_1''
      Map.empty)) = 200"
proof -
  have "Map.empty ''If-None-Match'' \<noteq> Some (etag stub_options)" by simp
  then have "handleEnvelopeItemFileRequest failing_co stub_options Map.empty =
      (c_json_error ''File not found'' 404,
       [(dd_type (documentData stub_options), documentDataToUse stub_options)])"
    by (intro handle_not_found failing_get) simp
  moreover have "res_status (fst (handleEnvelopeItemFileRequest inline_co stub_options Map.empty)) = 200"
    by (rule stub_served) (simp add: stub_options_def)
  ultimately show ?thesis
    by (simp add: example_token_route c_json_error_def)
qed

text \<open>
  C7, amended. When the read of the document's bytes fails, the handler answers 404 with
  the fixed message \<open>File not found\<close>; it never answers 500. So 404 is the answer both to
  an absent record and to a failed read.
\<close>

theorem storage_failure_is_not_found:
  "(\<not> (req ''If-None-Match'' = Some (etag opts) \<and> \<not> isDownload opts) \<longrightarrow>
    getFileServerSide co (dd_type (documentData opts)) (documentDataToUse opts) = None \<longrightarrow>
    res_status (fst (handleEnvelopeItemFileRequest co opts req)) = 404 \<and>
    res_body (fst (handleEnvelopeItemFileRequest co opts req)) = JsonError ''File not found'')
   \<and> res_status (fst (handleEnvelopeItemFileRequest co opts req)) \<in> {200, 304, 404}"
  by (cases rule: handle_cases [where req = req and opts = opts and co = co])
     (simp_all add: handle_not_modified handle_not_found handle_ok_view handle_ok_download
        c_json_error_def)

theorem storage_failure_is_not_found_witness:
  "res_status (fst (handleEnvelopeItemFileRequest failing_co (stub_options\<lparr>isDownload := True\<rparr>)
      [''If-None-Match'' \<mapsto> ''68585fb4d9126164ee1c6be9c49ee15c1031d23cd95c37ed4b6647836c4fe2d5''])) = 404
   \<and> res_body (fst (handleEnvelopeItemFileRequest failing_co (stub_options\<lparr>isDownload := True\<rparr>)
      [''If-None-Match'' \<mapsto> ''68585fb4d9126164ee1c6be9c49ee15c1031d23cd95c37ed4b6647836c4fe2d5''])) =
        JsonError ''File not found''"
  using storage_failure_is_not_found [of
      "[''If-None-Match'' \<mapsto> ''68585fb4d9126164ee1c6be9c49ee15c1031d23cd95c37ed4b6647836c4fe2d5'']"
      "stub_options\<lparr>isDownload := True\<rparr>" failing_co]
  by (simp add: failing_get)


section \<open>The ETag\<close>

lemma inline_upload_of_stub:
  "putPdfFileServerSide inline_env stub_file empty_world =
     (Inr stub_documentData,
      \<lparr>s3_objects = Map.empty, documentData_table = [stub_documentData],
       put_calls = [stub_file]\<rparr>)"
  by (simp add: putPdfFileServerSide_def inline_env_def upload_env_of_def
      isEncryptedDocumentsAllowed_def
      stub_file_def endsWith_def putFileServerSide_def putFileInDatabase_def
      createDocumentData_def empty_world_def base64_encode_stub stub_documentData_def Let_def)

text \<open>
  C1, as the claim states it, fails. Under the inline backend the upload of the stub
  creates the record \<open>stub_documentData\<close>; retrieving it serves the stub's 10 bytes, with
  an ETag that is the hash of the record's Base64 text, \<open>6858...\<close>, and not the hash of
  the bytes served, \<open>1620...\<close>.
\<close>

theorem etag_counterexample:
  "fst (putPdfFileServerSide inline_env stub_file empty_world) = Inr stub_documentData
   \<and> res_body (fst (handleEnvelopeItemFileRequest inline_co stub_options Map.empty)) =
        FileBody stub_pdf
   \<and> res_headers (fst (handleEnvelopeItemFileRequest inline_co stub_options Map.empty)) ''ETag'' =
        Some ''68585fb4d9126164ee1c6be9c49ee15c1031d23cd95c37ed4b6647836c4fe2d5''
   \<and> toHex (sha256 stub_pdf) =
        ''1620e31e152332bd7cde6230997c5462dbca64eba72d832bb46c04d3af022250''
   \<and> res_headers (fst (handleEnvelopeItemFileRequest inline_co stub_options Map.empty)) ''ETag'' \<noteq>
        Some (toHex (sha256 stub_pdf))"
proof -
  have dd: "documentData stub_options = stub_documentData"
    by (simp add: stub_options_def)
  have view: "\<not> isDownload stub_options"
    by (simp add: stub_options_def)
  have "Map.empty ''If-None-Match'' \<noteq> Some (etag stub_options)" by simp
  from handle_ok_view [OF this view inline_get_stub [OF dd]]
  have "res_body (fst (handleEnvelopeItemFileRequest inline_co stub_options Map.empty)) =
        FileBody stub_pdf"
    and "res_headers (fst (handleEnvelopeItemFileRequest inline_co stub_options Map.empty)) ''ETag'' =
        Some ''68585fb4d9126164ee1c6be9c49ee15c1031d23cd95c37ed4b6647836c4fe2d5''"
    by (simp_all add: stub_etag [OF dd])
  then show ?thesis
    by (simp add: inline_upload_of_stub sha256_stub_bytes)
qed

text \<open>
  C1, amended. On every response that serves the file (status 200), the \<open>ETag\<close> header is
  the SHA-256 hash, as 64 lower-case hexadecimal characters, of the UTF-8 bytes of the
  stored data string that the version selects: \<open>data\<close> for \<open>signed\<close>, \<open>initialData\<close> for
  \<open>original\<close>. That string is the bytes' Base64 text under the inline backend and the
  storage key under the object store.
\<close>

theorem etag_is_hash_of_stored_string:
  assumes "res_status (fst (handleEnvelopeItemFileRequest co opts req)) = 200"
  shows "res_headers (fst (handleEnvelopeItemFileRequest co opts req)) ''ETag'' =
      Some (toHex (sha256 (utf8ToBytes
        (if version opts = signed then dd_data (documentData opts)
         else dd_initialData (documentData opts)))))
    \<and> length (toHex (sha256 (utf8ToBytes
        (if version opts = signed then dd_data (documentData opts)
         else dd_initialData (documentData opts))))) = 64
    \<and> set (toHex (sha256 (utf8ToBytes
        (if version opts = signed then dd_data (documentData opts)
         else dd_initialData (documentData opts))))) \<subseteq> set ''0123456789abcdef''"
proof -
  have "res_headers (fst (handleEnvelopeItemFileRequest co opts req)) ''ETag'' = Some (etag opts)"
  proof (cases rule: handle_cases [where req = req and opts = opts and co = co])
    case not_modified
    with assms show ?thesis by (simp add: handle_not_modified)
  next
    case not_found
    with assms show ?thesis by (simp add: handle_not_found c_json_error_def)
  next
    case (view f)
    then show ?thesis by (simp add: handle_ok_view)
  next
    case (download f)
    then show ?thesis by (simp add: handle_ok_download)
  qed
  then show ?thesis
    using toHex_chars [of "sha256 (utf8ToBytes (documentDataToUse opts))"]
    by (simp add: etag_def documentDataToUse_def length_toHex length_sha256)
qed

theorem etag_is_hash_of_stored_string_witness:
  "res_headers (fst (handleEnvelopeItemFileRequest inline_co (stub_options\<lparr>version := original\<rparr>)
      Map.empty)) ''ETag'' = Some (toHex (sha256 (utf8ToBytes ''JVBERi0xLjQKJQ=='')))"
proof -
  have "res_status (fst (handleEnvelopeItemFileRequest inline_co
      (stub_options\<lparr>version := original\<rparr>) Map.empty)) = 200"
    by (rule stub_served) (simp add: stub_options_def)
  from etag_is_hash_of_stored_string [OF this] show ?thesis
    by (simp add: stub_options_def stub_documentData_def)
qed


section \<open>Authorization\<close>

lemma findUnique_foreign_token:
  assumes "\<not> startsWith token ''qr_''"
    and "\<forall>e \<in> set db. \<forall>i \<in> set (env_envelopeItems e).
           item_id i = envelopeItemId \<longrightarrow> token \<notin> set (env_recipients e)"
  shows "envelopeItem_findUnique db token envelopeItemId = None"
  using assms by (auto simp: envelopeItem_findUnique_def find_None_iff)

lemma find_SomeD: "find P xs = Some x \<Longrightarrow> x \<in> set xs \<and> P x"
  by (induction xs) (auto split: if_splits)

lemma findUnique_Some:
  assumes "envelopeItem_findUnique db token envelopeItemId = Some (e, i)"
  shows "e \<in> set db \<and> i \<in> set (env_envelopeItems e) \<and> item_id i = envelopeItemId \<and>
    (if startsWith token ''qr_'' then env_qrToken e = Some token
     else token \<in> set (env_recipients e))"
  using find_SomeD [OF assms [unfolded envelopeItem_findUnique_def]] by auto

lemma find_unique:
  "x \<in> set xs \<Longrightarrow> P x \<Longrightarrow> \<forall>y \<in> set xs. P y \<longrightarrow> y = x \<Longrightarrow> find P xs = Some x"
proof (induction xs)
  case Nil
  then show ?case by simp
next
  case (Cons a xs)
  show ?case
  proof (cases "P a")
    case True
    with Cons.prems have "a = x" by simp
    with True show ?thesis by simp
  next
    case False
    with Cons.prems have "x \<in> set xs" by auto
    moreover from Cons.prems have "\<forall>y \<in> set xs. P y \<longrightarrow> y = x" by simp
    ultimately have "find P xs = Some x" using Cons.prems(2) by (intro Cons.IH)
    with False show ?thesis by simp
  qed
qed

lemma mem_pairs:
  "(e, i) \<in> set (concat (map (\<lambda>e. map (Pair e) (env_envelopeItems e)) db)) \<longleftrightarrow>
   e \<in> set db \<and> i \<in> set (env_envelopeItems e)"
  by (induction db) auto

lemma findUnique_valid_token:
  assumes "owner \<in> set db" and "envelopeItem \<in> set (env_envelopeItems owner)"
    and "item_id envelopeItem = envelopeItemId"
    and "if startsWith token ''qr_'' then env_qrToken owner = Some token
         else token \<in> set (env_recipients owner)"
    and "\<forall>e \<in> set db. \<forall>i \<in> set (env_envelopeItems e).
           item_id i = envelopeItemId \<longrightarrow> e = owner \<and> i = envelopeItem"
  shows "envelopeItem_findUnique db token envelopeItemId = Some (owner, envelopeItem)"
  unfolding envelopeItem_findUnique_def
proof (rule find_unique)
  show "(owner, envelopeItem) \<in> set (concat (map (\<lambda>e. map (Pair e) (env_envelopeItems e)) db))"
    using assms(1,2) by (simp only: mem_pairs)
  show "case (owner, envelopeItem) of (e, i) \<Rightarrow> item_id i = envelopeItemId \<and>
      (if startsWith token ''qr_'' then env_qrToken e = Some token
       else token \<in> set (env_recipients e))"
    using assms(3,4) by simp
  show "\<forall>y \<in> set (concat (map (\<lambda>e. map (Pair e) (env_envelopeItems e)) db)).
      (case y of (e, i) \<Rightarrow> item_id i = envelopeItemId \<and>
        (if startsWith token ''qr_'' then env_qrToken e = Some token
         else token \<in> set (env_recipients e))) \<longrightarrow> y = (owner, envelopeItem)"
  proof (intro ballI impI)
    fix y
    assume y: "y \<in> set (concat (map (\<lambda>e. map (Pair e) (env_envelopeItems e)) db))"
      and p: "case y of (e, i) \<Rightarrow> item_id i = envelopeItemId \<and>
        (if startsWith token ''qr_'' then env_qrToken e = Some token
         else token \<in> set (env_recipients e))"
    obtain e i where ei: "y = (e, i)" by (cases y)
    from y have m: "e \<in> set db" "i \<in> set (env_envelopeItems e)"
      unfolding ei by (simp_all only: mem_pairs)
    from p have k: "item_id i = envelopeItemId" unfolding ei by simp
    have "e = owner \<and> i = envelopeItem"
      by (rule assms(5) [rule_format, OF m k])
    then show "y = (owner, envelopeItem)" unfolding ei by simp
  qed
qed

lemma findUnique_finds_valid_token:
  assumes "owner \<in> set db" and "envelopeItem \<in> set (env_envelopeItems owner)"
    and "item_id envelopeItem = envelopeItemId"
    and "if startsWith token ''qr_'' then env_qrToken owner = Some token
         else token \<in> set (env_recipients owner)"
  shows "envelopeItem_findUnique db token envelopeItemId \<noteq> None"
proof
  assume "envelopeItem_findUnique db token envelopeItemId = None"
  then have none: "\<forall>x. \<not> (x \<in> set (concat (map (\<lambda>e. map (Pair e) (env_envelopeItems e)) db)) \<and>
      (case x of (e, i) \<Rightarrow> item_id i = envelopeItemId \<and>
        (if startsWith token ''qr_'' then env_qrToken e = Some token
         else token \<in> set (env_recipients e))))"
    unfolding envelopeItem_findUnique_def find_None_iff by simp
  have "(owner, envelopeItem) \<in> set (concat (map (\<lambda>e. map (Pair e) (env_envelopeItems e)) db))"
    using assms(1,2) by (simp only: mem_pairs)
  moreover have "case (owner, envelopeItem) of (e, i) \<Rightarrow> item_id i = envelopeItemId \<and>
        (if startsWith token ''qr_'' then env_qrToken e = Some token
         else token \<in> set (env_recipients e))"
    using assms(3,4) by simp
  ultimately show False using none [rule_format, of "(owner, envelopeItem)"] by simp
qed

lemma token_route_found:
  assumes "envelopeItem_findUnique db token envelopeItemId \<noteq> None"
  shows "res_body (fst (get_token_envelopeItem co db token envelopeItemId req)) \<noteq>
    JsonError ''Envelope item not found''"
proof -
  from assms obtain e i where found: "envelopeItem_findUnique db token envelopeItemId = Some (e, i)"
    by (cases "envelopeItem_findUnique db token envelopeItemId") auto
  show ?thesis
  proof (cases "item_documentData i")
    case None
    with found show ?thesis by (simp add: get_token_envelopeItem_def c_json_error_def)
  next
    case (Some dd)
    let ?opts = "\<lparr>title = item_title i, status = env_status e,
        documentData = dd, version = signed, isDownload = False\<rparr>"
    have "res_body (fst (handleEnvelopeItemFileRequest co ?opts req)) \<noteq>
        JsonError ''Envelope item not found''"
      by (cases rule: handle_cases [where req = req and opts = ?opts and co = co])
         (simp_all add: handle_not_modified handle_not_found handle_ok_view handle_ok_download
            c_json_error_def)
    with found Some show ?thesis by (simp add: get_token_envelopeItem_def)
  qed
qed

text \<open>
  C3, as the claim states it, fails: a request with no session and no presign token, whose
  recipient token belongs to no recipient of the item's envelope, is answered 404 by the
  token route, not 401.
\<close>

theorem authorization_counterexample:
  "\<not> startsWith ''token_bob'' ''qr_''
   \<and> ''token_bob'' \<notin> set (env_recipients example_envelope)
   \<and> res_status (fst (get_token_envelopeItem inline_co example_db ''token_bob'' ''item_1''
        Map.empty)) = 404
   \<and> res_body (fst (get_token_envelopeItem inline_co example_db ''token_bob'' ''item_1''
        Map.empty)) = JsonError ''Envelope item not found''"
proof -
  have a: "\<not> startsWith ''token_bob'' ''qr_''"
    by (simp add: startsWith_def)
  have b: "''token_bob'' \<notin> set (env_recipients example_envelope)"
    by (simp add: example_envelope_def)
  have "envelopeItem_findUnique example_db ''token_bob'' ''item_1'' = None"
    using a b by (intro findUnique_foreign_token) (simp_all add: example_db_def)
  then show ?thesis
    using a b by (simp add: get_token_envelopeItem_def c_json_error_def)
qed

text \<open>
  C3, amended. On the session route, a request with neither a session nor a presign token,
  and a request whose presign token does not verify, are answered 401; a request of a
  session user who is no member of the team of the envelope, for an item that exists, is
  answered 403. On the token route there is no 401: a token that belongs to no recipient
  of the item's envelope is answered 404, as an absent item is. A token of a recipient of
  the item's envelope (or, for a token that starts with \<open>qr_\<close>, the envelope's QR token)
  is never answered that the item is not found, in any database; it is answered 200 with
  the bytes, given that the item has document data, the storage returns the bytes and the
  request's \<open>If-None-Match\<close> is not the ETag, the item's id being the key of the item,
  which no other item of the database has.
\<close>

theorem authorization_outcomes:
  "(session = None \<and> token = None \<longrightarrow>
      res_status (fst (get_envelopeItem co db session token envelopeId envelopeItemId req)) = 401 \<and>
      res_body (fst (get_envelopeItem co db session token envelopeId envelopeItemId req)) =
        JsonError ''Unauthorized'')
   \<and> (truthy_string token \<and> verifyEmbeddingPresignToken co (the token) = None \<longrightarrow>
      res_status (fst (get_envelopeItem co db session token envelopeId envelopeItemId req)) = 401 \<and>
      res_body (fst (get_envelopeItem co db session token envelopeId envelopeItemId req)) =
        JsonError ''Unauthorized'')
   \<and> (session = Some userId \<and> userId \<noteq> 0 \<and> token = None \<and>
        find (\<lambda>e. env_id e = envelopeId) db = Some envelope \<and>
        (\<exists>i \<in> set (env_envelopeItems envelope). item_id i = envelopeItemId) \<and>
        getTeamById co userId (env_teamId envelope) = None \<longrightarrow>
      res_status (fst (get_envelopeItem co db session token envelopeId envelopeItemId req)) = 403)
   \<and> (\<not> startsWith recipientToken ''qr_'' \<and>
        (\<forall>e \<in> set db. \<forall>i \<in> set (env_envelopeItems e).
            item_id i = envelopeItemId \<longrightarrow> recipientToken \<notin> set (env_recipients e)) \<longrightarrow>
      res_status (fst (get_token_envelopeItem co db recipientToken envelopeItemId req)) = 404 \<and>
      res_body (fst (get_token_envelopeItem co db recipientToken envelopeItemId req)) =
        JsonError ''Envelope item not found'')
   \<and> (owner \<in> set db \<and> envelopeItem \<in> set (env_envelopeItems owner) \<and>
        item_id envelopeItem = envelopeItemId \<and>
        (if startsWith recipientToken ''qr_'' then env_qrToken owner = Some recipientToken
         else recipientToken \<in> set (env_recipients owner)) \<longrightarrow>
      envelopeItem_findUnique db recipientToken envelopeItemId \<noteq> None \<and>
      res_body (fst (get_token_envelopeItem co db recipientToken envelopeItemId req)) \<noteq>
        JsonError ''Envelope item not found'')
   \<and> (owner \<in> set db \<and> envelopeItem \<in> set (env_envelopeItems owner) \<and>
        item_id envelopeItem = envelopeItemId \<and>
        (if startsWith recipientToken ''qr_'' then env_qrToken owner = Some recipientToken
         else recipientToken \<in> set (env_recipients owner)) \<and>
        (\<forall>e \<in> set db. \<forall>i \<in> set (env_envelopeItems e).
            item_id i = envelopeItemId \<longrightarrow> e = owner \<and> i = envelopeItem) \<and>
        item_documentData envelopeItem = Some dd \<and>
        getFileServerSide co (dd_type dd) (dd_data dd) = Some bytes \<and>
        req ''If-None-Match'' \<noteq> Some (toHex (sha256 (utf8ToBytes (dd_data dd)))) \<longrightarrow>
      res_status (fst (get_token_envelopeItem co db recipientToken envelopeItemId req)) = 200 \<and>
      res_body (fst (get_token_envelopeItem co db recipientToken envelopeItemId req)) =
        FileBody bytes)"
proof -
  have p1: "res_status (fst (get_envelopeItem co db session token envelopeId envelopeItemId req)) = 401 \<and>
      res_body (fst (get_envelopeItem co db session token envelopeId envelopeItemId req)) =
        JsonError ''Unauthorized''"
    if "session = None \<and> token = None"
    using that
    by (simp add: get_envelopeItem_def truthy_string_def truthy_number_def c_json_error_def)
  have p2: "res_status (fst (get_envelopeItem co db session token envelopeId envelopeItemId req)) = 401 \<and>
      res_body (fst (get_envelopeItem co db session token envelopeId envelopeItemId req)) =
        JsonError ''Unauthorized''"
    if "truthy_string token \<and> verifyEmbeddingPresignToken co (the token) = None"
    using that
    by (simp add: get_envelopeItem_def truthy_number_def c_json_error_def)
  have p3: "res_status (fst (get_envelopeItem co db session token envelopeId envelopeItemId req)) = 403"
    if h: "session = Some userId \<and> userId \<noteq> 0 \<and> token = None \<and>
        find (\<lambda>e. env_id e = envelopeId) db = Some envelope \<and>
        (\<exists>i \<in> set (env_envelopeItems envelope). item_id i = envelopeItemId) \<and>
        getTeamById co userId (env_teamId envelope) = None"
  proof -
    from h have "filter (\<lambda>i. item_id i = envelopeItemId) (env_envelopeItems envelope) \<noteq> []"
      by (auto simp: filter_empty_conv)
    then obtain i rest where
      "filter (\<lambda>i. item_id i = envelopeItemId) (env_envelopeItems envelope) = i # rest"
      by (cases "filter (\<lambda>i. item_id i = envelopeItemId) (env_envelopeItems envelope)") auto
    with h show ?thesis
      by (simp add: get_envelopeItem_def truthy_string_def truthy_number_def c_json_error_def
          envelope_findFirst_def)
  qed
  have p4: "res_status (fst (get_token_envelopeItem co db recipientToken envelopeItemId req)) = 404 \<and>
      res_body (fst (get_token_envelopeItem co db recipientToken envelopeItemId req)) =
        JsonError ''Envelope item not found''"
    if "\<not> startsWith recipientToken ''qr_'' \<and>
        (\<forall>e \<in> set db. \<forall>i \<in> set (env_envelopeItems e).
            item_id i = envelopeItemId \<longrightarrow> recipientToken \<notin> set (env_recipients e))"
    using that findUnique_foreign_token [of recipientToken db envelopeItemId]
    by (simp add: get_token_envelopeItem_def c_json_error_def)
  have p5: "res_status (fst (get_token_envelopeItem co db recipientToken envelopeItemId req)) = 200 \<and>
      res_body (fst (get_token_envelopeItem co db recipientToken envelopeItemId req)) =
        FileBody bytes"
    if h: "owner \<in> set db \<and> envelopeItem \<in> set (env_envelopeItems owner) \<and>
        item_id envelopeItem = envelopeItemId \<and>
        (if startsWith recipientToken ''qr_'' then env_qrToken owner = Some recipientToken
         else recipientToken \<in> set (env_recipients owner)) \<and>
        (\<forall>e \<in> set db. \<forall>i \<in> set (env_envelopeItems e).
            item_id i = envelopeItemId \<longrightarrow> e = owner \<and> i = envelopeItem) \<and>
        item_documentData envelopeItem = Some dd \<and>
        getFileServerSide co (dd_type dd) (dd_data dd) = Some bytes \<and>
        req ''If-None-Match'' \<noteq> Some (toHex (sha256 (utf8ToBytes (dd_data dd))))"
  proof -
    let ?opts = "\<lparr>title = item_title envelopeItem, status = env_status owner,
        documentData = dd, version = signed, isDownload = False\<rparr>"
    from h have found:
      "envelopeItem_findUnique db recipientToken envelopeItemId = Some (owner, envelopeItem)"
      by (intro findUnique_valid_token) simp_all
    have "documentDataToUse ?opts = dd_data dd" by (simp add: documentDataToUse_def)
    with h have "handleEnvelopeItemFileRequest co ?opts req =
        (\<lparr>res_status = 200,
          res_headers = [''Content-Type'' \<mapsto> ''application/pdf'', ''ETag'' \<mapsto> etag ?opts,
            ''Cache-Control'' \<mapsto> (if status ?opts = COMPLETED
               then ''public, max-age=31536000, immutable''
               else ''public, max-age=0, must-revalidate'')],
          res_body = FileBody bytes\<rparr>,
         [(dd_type (documentData ?opts), documentDataToUse ?opts)])"
      by (intro handle_ok_view) (simp_all add: etag_def)
    with h found show ?thesis
      by (simp add: get_token_envelopeItem_def)
  qed
  show ?thesis
  proof (intro conjI impI)
    assume h: "session = None \<and> token = None"
    show "res_status (fst (get_envelopeItem co db session token envelopeId envelopeItemId req)) = 401"
      and "res_body (fst (get_envelopeItem co db session token envelopeId envelopeItemId req)) =
        JsonError ''Unauthorized''"
      using p1 [OF h] by simp_all
  next
    assume h: "truthy_string token \<and> verifyEmbeddingPresignToken co (the token) = None"
    show "res_status (fst (get_envelopeItem co db session token envelopeId envelopeItemId req)) = 401"
      and "res_body (fst (get_envelopeItem co db session token envelopeId envelopeItemId req)) =
        JsonError ''Unauthorized''"
      using p2 [OF h] by simp_all
  next
    assume "session = Some userId \<and> userId \<noteq> 0 \<and> token = None \<and>
        find (\<lambda>e. env_id e = envelopeId) db = Some envelope \<and>
        (\<exists>i \<in> set (env_envelopeItems envelope). item_id i = envelopeItemId) \<and>
        getTeamById co userId (env_teamId envelope) = None"
    then show "res_status (fst (get_envelopeItem co db session token envelopeId envelopeItemId req)) = 403"
      by (rule p3)
  next
    assume h: "\<not> startsWith recipientToken ''qr_'' \<and>
        (\<forall>e \<in> set db. \<forall>i \<in> set (env_envelopeItems e).
            item_id i = envelopeItemId \<longrightarrow> recipientToken \<notin> set (env_recipients e))"
    show "res_status (fst (get_token_envelopeItem co db recipientToken envelopeItemId req)) = 404"
      and "res_body (fst (get_token_envelopeItem co db recipientToken envelopeItemId req)) =
        JsonError ''Envelope item not found''"
      using p4 [OF h] by simp_all
  next
    assume h: "owner \<in> set db \<and> envelopeItem \<in> set (env_envelopeItems owner) \<and>
        item_id envelopeItem = envelopeItemId \<and>
        (if startsWith recipientToken ''qr_'' then env_qrToken owner = Some recipientToken
         else recipientToken \<in> set (env_recipients owner))"
    then show found: "envelopeItem_findUnique db recipientToken envelopeItemId \<noteq> None"
      by (intro findUnique_finds_valid_token [of owner db envelopeItem]) simp_all
    then show "res_body (fst (get_token_envelopeItem co db recipientToken envelopeItemId req)) \<noteq>
        JsonError ''Envelope item not found''"
      by (rule token_route_found)
  next
    assume h: "owner \<in> set db \<and> envelopeItem \<in> set (env_envelopeItems owner) \<and>
        item_id envelopeItem = envelopeItemId \<and>
        (if startsWith recipientToken ''qr_'' then env_qrToken owner = Some recipientToken
         else recipientToken \<in> set (env_recipients owner)) \<and>
        (\<forall>e \<in> set db. \<forall>i \<in> set (env_envelopeItems e).
            item_id i = envelopeItemId \<longrightarrow> e = owner \<and> i = envelopeItem) \<and>
        item_documentData envelopeItem = Some dd \<and>
        getFileServerSide co (dd_type dd) (dd_data dd) = Some bytes \<and>
        req ''If-None-Match'' \<noteq> Some (toHex (sha256 (utf8ToBytes (dd_data dd))))"
    show "res_status (fst (get_token_envelopeItem co db recipientToken envelopeItemId req)) = 200"
      and "res_body (fst (get_token_envelopeItem co db recipientToken envelopeItemId req)) =
        FileBody bytes"
      using p5 [OF h] by simp_all
  qed
qed

theorem authorization_outcomes_witness:
  "res_status (fst (get_envelopeItem inline_co example_db None None ''envelope_1'' ''item_1''
      Map.empty)) = 401
   \<and> res_status (fst (get_envelopeItem inline_co example_db (Some 1) (Some ''expired'')
      ''envelope_1'' ''item_1'' Map.empty)) = 401
   \<and> res_status (fst (get_envelopeItem inline_co example_db (Some 2) None ''envelope_1''
      ''item_1'' Map.empty)) = 403
   \<and> res_status (fst (get_token_envelopeItem inline_co example_db ''token_bob'' ''item_1''
      Map.empty)) = 404
   \<and> res_status (fst (get_token_envelopeItem inline_co example_db ''token_alice'' ''item_1''
      Map.empty)) = 200
   \<and> res_body (fst (get_token_envelopeItem inline_co example_db ''token_alice'' ''item_1''
      Map.empty)) = FileBody stub_pdf
   \<and> res_status (fst (get_token_envelopeItem inline_co example_db ''qr_abc'' ''item_1''
      Map.empty)) = 200"
proof -
  have a: "res_status (fst (get_envelopeItem inline_co example_db None None ''envelope_1''
      ''item_1'' Map.empty)) = 401"
    using authorization_outcomes [where session = None and token = None and co = inline_co
        and db = example_db and envelopeId = "''envelope_1''"
        and envelopeItemId = "''item_1''" and req = Map.empty]
    by simp
  have b: "res_status (fst (get_envelopeItem inline_co example_db (Some 1) (Some ''expired'')
      ''envelope_1'' ''item_1'' Map.empty)) = 401"
    using authorization_outcomes [where session = "Some 1" and token = "Some ''expired''"
        and co = inline_co and db = example_db and envelopeId = "''envelope_1''"
        and envelopeItemId = "''item_1''" and req = Map.empty]
    by (simp add: truthy_string_def inline_co_def)
  have c: "res_status (fst (get_envelopeItem inline_co example_db (Some 2) None ''envelope_1''
      ''item_1'' Map.empty)) = 403"
    using authorization_outcomes [where session = "Some 2" and token = None
        and co = inline_co and db = example_db and envelopeId = "''envelope_1''"
        and envelopeItemId = "''item_1''" and req = Map.empty and userId = 2
        and envelope = example_envelope]
    by (simp add: example_db_def example_envelope_def example_item_def inline_co_def)
  have d: "res_status (fst (get_token_envelopeItem inline_co example_db ''token_bob'' ''item_1''
      Map.empty)) = 404"
    using authorization_outcomes [where co = inline_co and db = example_db
        and envelopeItemId = "''item_1''" and req = Map.empty
        and recipientToken = "''token_bob''"]
    by (simp add: example_db_def example_envelope_def startsWith_def)
  have h1: "example_envelope \<in> set example_db"
    by (simp add: example_db_def)
  have h2: "example_item \<in> set (env_envelopeItems example_envelope)"
    by (simp add: example_envelope_def)
  have h3: "item_id example_item = ''item_1''"
    by (simp add: example_item_def)
  have h4: "if startsWith ''token_alice'' ''qr_''
      then env_qrToken example_envelope = Some ''token_alice''
      else ''token_alice'' \<in> set (env_recipients example_envelope)"
    by (simp add: startsWith_def example_envelope_def)
  have h4': "if startsWith ''qr_abc'' ''qr_''
      then env_qrToken example_envelope = Some ''qr_abc''
      else ''qr_abc'' \<in> set (env_recipients example_envelope)"
    by (simp add: startsWith_def example_envelope_def)
  have h5: "\<forall>e \<in> set example_db. \<forall>i \<in> set (env_envelopeItems e).
      item_id i = ''item_1'' \<longrightarrow> e = example_envelope \<and> i = example_item"
    by (simp add: example_db_def) (simp add: example_envelope_def)
  have h6: "item_documentData example_item = Some stub_documentData"
    by (simp add: example_item_def)
  have h7: "getFileServerSide inline_co (dd_type stub_documentData) (dd_data stub_documentData) =
      Some stub_pdf"
    using inline_get_stub [of stub_options]
    by (simp add: stub_options_def documentDataToUse_def)
  have h8: "Map.empty ''If-None-Match'' \<noteq>
      Some (toHex (sha256 (utf8ToBytes (dd_data stub_documentData))))"
    by simp
  have e: "res_status (fst (get_token_envelopeItem inline_co example_db ''token_alice'' ''item_1''
      Map.empty)) = 200 \<and>
    res_body (fst (get_token_envelopeItem inline_co example_db ''token_alice'' ''item_1''
      Map.empty)) = FileBody stub_pdf"
    using authorization_outcomes [where co = inline_co and db = example_db
        and envelopeItemId = "''item_1''" and req = Map.empty
        and recipientToken = "''token_alice''" and owner = example_envelope
        and envelopeItem = example_item and dd = stub_documentData and bytes = stub_pdf]
      h1 h2 h3 h4 h5 h6 h7 h8
    by (simp only: simp_thms)
  have f: "res_status (fst (get_token_envelopeItem inline_co example_db ''qr_abc'' ''item_1''
      Map.empty)) = 200"
    using authorization_outcomes [where co = inline_co and db = example_db
        and envelopeItemId = "''item_1''" and req = Map.empty
        and recipientToken = "''qr_abc''" and owner = example_envelope
        and envelopeItem = example_item and dd = stub_documentData and bytes = stub_pdf]
      h1 h2 h3 h4' h5 h6 h7 h8
    by (simp only: simp_thms)
  from a b c d e f show ?thesis by simp
qed


section \<open>Uploads\<close>

lemma putFileServerSide_inline:
  "NEXT_PUBLIC_UPLOAD_TRANSPORT env \<noteq> Some ''s3'' \<Longrightarrow>
   putFileServerSide env file w =
     (Inr (BYTES_64, base64_encode (contents file)), w\<lparr>put_calls := put_calls w @ [file]\<rparr>)"
  by (simp add: putFileServerSide_def putFileInDatabase_def)

lemma putFileServerSide_s3:
  "NEXT_PUBLIC_UPLOAD_TRANSPORT env = Some ''s3'' \<Longrightarrow> s3_key_for env file = Some key \<Longrightarrow>
   putFileServerSide env file w =
     (Inr (S3_PATH, key),
      w\<lparr>put_calls := put_calls w @ [file], s3_objects := (s3_objects w)(key \<mapsto> contents file)\<rparr>)"
  by (simp add: putFileServerSide_def putFileInS3_def uploadS3File_def)

lemma putFileServerSide_s3_failure:
  "NEXT_PUBLIC_UPLOAD_TRANSPORT env = Some ''s3'' \<Longrightarrow> s3_key_for env file = None \<Longrightarrow>
   putFileServerSide env file w =
     (Inl (Error ''Failed to upload file''), w\<lparr>put_calls := put_calls w @ [file]\<rparr>)"
  by (simp add: putFileServerSide_def putFileInS3_def uploadS3File_def)

lemma putFileServerSide_put_calls:
  "put_calls (snd (putFileServerSide env file w)) = put_calls w @ [file]"
proof (cases "NEXT_PUBLIC_UPLOAD_TRANSPORT env = Some ''s3''")
  case True
  then show ?thesis
    by (cases "s3_key_for env file")
       (simp_all add: putFileServerSide_s3 putFileServerSide_s3_failure)
next
  case False
  then show ?thesis by (simp add: putFileServerSide_inline)
qed

lemma createDocumentData_put_calls:
  "put_calls (snd (createDocumentData env ty dat w)) = put_calls w"
  by (simp add: createDocumentData_def Let_def)

text \<open>
  C8. A \<open>POST /upload-pdf\<close> request without a file, or with a file of more than
  \<open>APP_DOCUMENT_UPLOAD_SIZE_LIMIT\<close> megabytes, is answered 400 and leaves the world as it
  was: no call of the storage backend, no object stored, no row created.
\<close>

theorem upload_rejected_before_storage:
  assumes "file = None \<or> (\<exists>f. file = Some f \<and> file_size f > limit * 1024 * 1024)"
  shows "res_status (fst (post_upload_pdf env limit file w)) = 400
    \<and> snd (post_upload_pdf env limit file w) = w"
  using assms by (auto simp: post_upload_pdf_def c_json_error_def)

theorem upload_rejected_before_storage_witness:
  "res_status (fst (post_upload_pdf inline_env 1 None empty_world)) = 400
   \<and> snd (post_upload_pdf inline_env 1 None empty_world) = empty_world
   \<and> res_status (fst (post_upload_pdf inline_env 1
        (Some \<lparr>name = ''big.pdf'', mime_type = ''application/pdf'',
               contents = replicate 1048577 0\<rparr>) empty_world)) = 400
   \<and> snd (post_upload_pdf inline_env 1
        (Some \<lparr>name = ''big.pdf'', mime_type = ''application/pdf'',
               contents = replicate 1048577 0\<rparr>) empty_world) = empty_world"
  using upload_rejected_before_storage [of None 1 inline_env empty_world]
    upload_rejected_before_storage [of
      "Some \<lparr>name = ''big.pdf'', mime_type = ''application/pdf'', contents = replicate 1048577 0\<rparr>"
      1 inline_env empty_world]
  by (simp add: file_size_def)

lemma normalizePdf_spec_encrypted:
  assumes "\<forall>pdf. load bs = Some pdf \<longrightarrow> isEncrypted pdf"
  shows "normalizePdf_spec load rewrite bs = Inl (AppError ''INVALID_DOCUMENT_FILE'')"
  using assms by (cases "load bs") (simp_all add: normalizePdf_spec_def)

lemma putNormalized_rethrows:
  "normalizePdf env (contents f) = Inl e \<Longrightarrow>
   putNormalizedPdfFileServerSide env f w = (Inl e, w)"
  by (simp add: putNormalizedPdfFileServerSide_def)

text \<open>
  C5. A document is encrypted when the PDF parser does not return it as an unencrypted
  document: the parser rejects it, as it does an encrypted file, or returns it with
  \<open>isEncrypted\<close> set. For such a document both uploads fail with
  \<open>INVALID_DOCUMENT_FILE\<close> and leave the world as it was, so the storage backend's put
  is not invoked, nothing is stored and no row is created: \<open>putPdfFileServerSide\<close> by
  its own guard; \<open>putNormalizedPdfFileServerSide\<close>, the upload of \<open>POST /upload-pdf\<close>,
  by the validation in \<open>normalizePdf\<close>, which is the one of the specification. The route
  then answers 500 (400 for a file over the limit), with the world as it was.
\<close>

theorem encrypted_pdf_rejected_before_storage:
  assumes "\<forall>pdf. PDFDocument_load env (contents f) = Some pdf \<longrightarrow> isEncrypted pdf"
  shows "putPdfFileServerSide env f w = (Inl (AppError ''INVALID_DOCUMENT_FILE''), w)
    \<and> (normalizePdf env = normalizePdf_spec (PDFDocument_load env) rewrite \<longrightarrow>
         putNormalizedPdfFileServerSide env f w = (Inl (AppError ''INVALID_DOCUMENT_FILE''), w) \<and>
         snd (post_upload_pdf env limit (Some f) w) = w \<and>
         res_status (fst (post_upload_pdf env limit (Some f) w)) =
           (if file_size f > limit * 1024 * 1024 then 400 else 500))"
proof -
  have p1: "putPdfFileServerSide env f w = (Inl (AppError ''INVALID_DOCUMENT_FILE''), w)"
    using assms
    by (cases "PDFDocument_load env (contents f)")
       (simp_all add: putPdfFileServerSide_def isEncryptedDocumentsAllowed_def)
  have p2: "putNormalizedPdfFileServerSide env f w = (Inl (AppError ''INVALID_DOCUMENT_FILE''), w) \<and>
      snd (post_upload_pdf env limit (Some f) w) = w \<and>
      res_status (fst (post_upload_pdf env limit (Some f) w)) =
        (if file_size f > limit * 1024 * 1024 then 400 else 500)"
    if spec: "normalizePdf env = normalizePdf_spec (PDFDocument_load env) rewrite"
  proof -
    have "normalizePdf env (contents f) = Inl (AppError ''INVALID_DOCUMENT_FILE'')"
      unfolding spec using assms by (rule normalizePdf_spec_encrypted)
    then have "putNormalizedPdfFileServerSide env f w =
        (Inl (AppError ''INVALID_DOCUMENT_FILE''), w)"
      by (rule putNormalized_rethrows)
    then show ?thesis
      by (simp add: post_upload_pdf_def c_json_error_def)
  qed
  from p1 p2 show ?thesis by blast
qed

theorem encrypted_pdf_rejected_before_storage_witness:
  "putPdfFileServerSide rejecting_env stub_file empty_world =
     (Inl (AppError ''INVALID_DOCUMENT_FILE''), empty_world)
   \<and> putNormalizedPdfFileServerSide rejecting_env stub_file empty_world =
     (Inl (AppError ''INVALID_DOCUMENT_FILE''), empty_world)
   \<and> putPdfFileServerSide encrypted_env stub_file empty_world =
     (Inl (AppError ''INVALID_DOCUMENT_FILE''), empty_world)
   \<and> putNormalizedPdfFileServerSide encrypted_env stub_file empty_world =
     (Inl (AppError ''INVALID_DOCUMENT_FILE''), empty_world)
   \<and> snd (post_upload_pdf encrypted_env 50 (Some stub_file) empty_world) = empty_world
   \<and> res_status (fst (post_upload_pdf encrypted_env 50 (Some stub_file) empty_world)) = 500"
proof -
  have size: "\<not> file_size stub_file > 50 * 1024 * 1024"
    by (simp add: file_size_def stub_file_def stub_pdf_def)
  have a: "\<forall>pdf. PDFDocument_load rejecting_env (contents stub_file) = Some pdf \<longrightarrow> isEncrypted pdf"
    by (simp add: rejecting_env_def upload_env_of_def)
  have a': "normalizePdf rejecting_env = normalizePdf_spec (PDFDocument_load rejecting_env) id"
    by (simp add: rejecting_env_def upload_env_of_def)
  have b: "\<forall>pdf. PDFDocument_load encrypted_env (contents stub_file) = Some pdf \<longrightarrow> isEncrypted pdf"
    by (auto simp: encrypted_env_def upload_env_of_def)
  have b': "normalizePdf encrypted_env = normalizePdf_spec (PDFDocument_load encrypted_env) id"
    by (simp add: encrypted_env_def upload_env_of_def)
  show ?thesis
    using encrypted_pdf_rejected_before_storage [OF a, of empty_world id 50]
      encrypted_pdf_rejected_before_storage [OF b, of empty_world id 50] a' b' size
    by simp
qed

text \<open>
  C6. For every file, the storage backend's get returns the file's bytes from what its put
  returned, in the world the put left: under the inline backend, where the put returns
  \<open>BYTES_64\<close> with the Base64 text of the bytes, and under the object store, where it
  returns \<open>S3_PATH\<close> with the key, given that the upload to the object store succeeds.
\<close>

theorem storage_roundtrip:
  "putFileInDatabase f = (BYTES_64, base64_encode (contents f))
   \<and> (NEXT_PUBLIC_UPLOAD_TRANSPORT env \<noteq> Some ''s3'' \<longrightarrow>
        fst (putFileServerSide env f w) = Inr (BYTES_64, base64_encode (contents f)))
   \<and> (NEXT_PUBLIC_UPLOAD_TRANSPORT env = Some ''s3'' \<and> s3_key_for env f = Some key \<longrightarrow>
        fst (putFileServerSide env f w) = Inr (S3_PATH, key))
   \<and> (putFileServerSide env f w = (Inr (ty, dat), w') \<longrightarrow>
        StorageBackend_get w' ty dat = Some (contents f))"
proof -
  have p4: "StorageBackend_get w' ty dat = Some (contents f)"
    if put: "putFileServerSide env f w = (Inr (ty, dat), w')"
  proof (cases "NEXT_PUBLIC_UPLOAD_TRANSPORT env = Some ''s3''")
    case False
    with put show ?thesis
      by (auto simp: putFileServerSide_inline StorageBackend_get_def base64_decode_encode)
  next
    case True
    show ?thesis
    proof (cases "s3_key_for env f")
      case None
      with True put show ?thesis by (simp add: putFileServerSide_s3_failure)
    next
      case (Some k)
      with True put show ?thesis
        by (auto simp: putFileServerSide_s3 StorageBackend_get_def)
    qed
  qed
  then show ?thesis
    by (simp add: putFileInDatabase_def putFileServerSide_inline putFileServerSide_s3)
qed

theorem storage_roundtrip_witness:
  "fst (putFileServerSide inline_env stub_file empty_world) = Inr (BYTES_64, ''JVBERi0xLjQKJQ=='')
   \<and> StorageBackend_get (snd (putFileServerSide inline_env stub_file empty_world))
        BYTES_64 ''JVBERi0xLjQKJQ=='' = Some stub_pdf
   \<and> fst (putFileServerSide s3_env stub_file empty_world) = Inr (S3_PATH, ''key/stub.pdf'')
   \<and> StorageBackend_get (snd (putFileServerSide s3_env stub_file empty_world))
        S3_PATH ''key/stub.pdf'' = Some stub_pdf"
proof -
  have c: "contents stub_file = stub_pdf" by (simp add: stub_file_def)
  have a: "fst (putFileServerSide inline_env stub_file empty_world) =
      Inr (BYTES_64, ''JVBERi0xLjQKJQ=='')"
    using storage_roundtrip [where env = inline_env and f = stub_file and w = empty_world]
    by (simp add: inline_env_def upload_env_of_def c base64_encode_stub)
  have b: "fst (putFileServerSide s3_env stub_file empty_world) = Inr (S3_PATH, ''key/stub.pdf'')"
    using storage_roundtrip [where env = s3_env and f = stub_file and w = empty_world
        and key = "''key/stub.pdf''"]
    by (simp add: s3_env_def upload_env_of_def stub_file_def)
  have a': "StorageBackend_get (snd (putFileServerSide inline_env stub_file empty_world))
        BYTES_64 ''JVBERi0xLjQKJQ=='' = Some stub_pdf"
    using storage_roundtrip [where env = inline_env and f = stub_file and w = empty_world
        and ty = BYTES_64 and dat = "''JVBERi0xLjQKJQ==''"
        and w' = "snd (putFileServerSide inline_env stub_file empty_world)"] a c
    by (simp add: prod_eq_iff)
  have b': "StorageBackend_get (snd (putFileServerSide s3_env stub_file empty_world))
        S3_PATH ''key/stub.pdf'' = Some stub_pdf"
    using storage_roundtrip [where env = s3_env and f = stub_file and w = empty_world
        and ty = S3_PATH and dat = "''key/stub.pdf''"
        and w' = "snd (putFileServerSide s3_env stub_file empty_world)"] b c
    by (simp add: prod_eq_iff)
  from a a' b b' show ?thesis by simp
qed



section \<open>Audit logs\<close>

lemma length_map_all: "map_all f xs = Some ys \<Longrightarrow> length ys = length xs"
proof (induction xs arbitrary: ys)
  case Nil
  then show ?case by simp
next
  case (Cons x xs)
  then show ?case by (cases "f x"; cases "map_all f xs") auto
qed

lemma map_all_total: "\<forall>x. f x \<noteq> None \<Longrightarrow> map_all f xs \<noteq> None"
proof (induction xs)
  case Nil
  then show ?case by simp
next
  case (Cons x xs)
  then obtain y where "f x = Some y" by auto
  with Cons show ?case by auto
qed

lemma example_where:
  "filter (buildAuditLogWhereClause ''envelope_1'' None) example_logs = example_logs"
  by (simp add: buildAuditLogWhereClause_def example_logs_def)

lemma example_rows:
  "rows_from_cursor keep_order (buildAuditLogWhereClause ''envelope_1'' None)
     (''createdAt'', desc) None example_logs = example_logs"
  by (simp add: rows_from_cursor_def keep_order_def example_where)

text \<open>
  C10, as the claim states it, fails on a later page. The three rows of the example all match
  the query; with two rows per page, page 2 holds the third row alone, and there is no
  next cursor although more than \<open>perPage\<close> rows matched.
\<close>

theorem audit_log_counterexample:
  "length (filter (buildAuditLogWhereClause ''envelope_1'' None) example_logs) = 3
   \<and> queryAuditLogs keep_order Some example_logs (example_query 2 2) =
       Some \<lparr>fr_data =
               [\<lparr>log_id = ''log_3'', log_envelopeId = ''envelope_1'', log_type = DOCUMENT_OPENED,
                 log_isResending = False, log_createdAt = 1\<rparr>],
             fr_count = 3, fr_currentPage = 2, fr_perPage = 2, fr_totalPages = Finite 2,
             fr_nextCursor = None\<rparr>"
proof -
  have "findMany keep_order (buildAuditLogWhereClause ''envelope_1'' None) 2 3
      (''createdAt'', desc) None example_logs =
      [\<lparr>log_id = ''log_3'', log_envelopeId = ''envelope_1'', log_type = DOCUMENT_OPENED,
        log_isResending = False, log_createdAt = 1\<rparr>]"
    by (simp add: findMany_def example_rows) (simp add: example_logs_def)
  then show ?thesis
    by (simp add: queryAuditLogs_def example_query_def page_of_def perPage_of_def
        truthy_string_def example_where ceil_div_def Let_def)
       (simp add: example_logs_def)
qed


text \<open>
  C10, amended. When \<open>queryAuditLogs\<close> returns, its \<open>data\<close> has at most \<open>perPage\<close>
  entries; \<open>nextCursor\<close> is defined exactly when more than \<open>perPage\<close> of the matching
  rows remain from the cursor on after the \<open>(max(page, 1) - 1) * perPage\<close> rows that are
  skipped (it fetches \<open>perPage + 1\<close> rows and truncates); \<open>currentPage\<close> is
  \<open>max(page, 1)\<close>; and \<open>count\<close> is the number of all matching rows. It returns whenever
  the parser accepts every row.
\<close>

theorem audit_log_page:
  "(queryAuditLogs sortRows parse table opts = Some r \<longrightarrow>
      length (fr_data r) \<le> perPage_of opts
      \<and> (fr_nextCursor r \<noteq> None \<longleftrightarrow>
           nat (max (page_of opts) 1 - 1) * perPage_of opts + perPage_of opts
             < length (rows_from_cursor sortRows
                 (buildAuditLogWhereClause (envelope_id opts) (filterForRecentActivity opts))
                 (case orderBy opts of None \<Rightarrow> ''createdAt'' | Some ob \<Rightarrow> fst ob,
                  case orderBy opts of None \<Rightarrow> desc | Some ob \<Rightarrow> snd ob)
                 (if truthy_string (cursor opts) then cursor opts else None) table))
      \<and> fr_currentPage r = max (page_of opts) 1
      \<and> fr_count r =
          length (filter
            (buildAuditLogWhereClause (envelope_id opts) (filterForRecentActivity opts)) table))
   \<and> ((\<forall>row. parse row \<noteq> None) \<longrightarrow> queryAuditLogs sortRows parse table opts \<noteq> None)"
proof -
  let ?n = "perPage_of opts"
  let ?skip = "nat (max (page_of opts) 1 - 1) * ?n"
  let ?window = "rows_from_cursor sortRows
      (buildAuditLogWhereClause (envelope_id opts) (filterForRecentActivity opts))
      (case orderBy opts of None \<Rightarrow> ''createdAt'' | Some ob \<Rightarrow> fst ob,
       case orderBy opts of None \<Rightarrow> desc | Some ob \<Rightarrow> snd ob)
      (if truthy_string (cursor opts) then cursor opts else None) table"
  let ?rows = "take (?n + 1) (drop ?skip ?window)"
  have unfold: "queryAuditLogs sortRows parse table opts =
      (case map_all parse ?rows of
         None \<Rightarrow> None
       | Some allParsedData \<Rightarrow>
           Some \<lparr>fr_data = (if length allParsedData > ?n then take ?n allParsedData
                             else allParsedData),
                 fr_count = length (filter
                   (buildAuditLogWhereClause (envelope_id opts) (filterForRecentActivity opts))
                   table),
                 fr_currentPage = max (page_of opts) 1, fr_perPage = ?n,
                 fr_totalPages = ceil_div (length (filter
                   (buildAuditLogWhereClause (envelope_id opts) (filterForRecentActivity opts))
                   table)) ?n,
                 fr_nextCursor = (if length allParsedData > ?n
                                  then Some (log_id (allParsedData ! ?n)) else None)\<rparr>)"
    unfolding queryAuditLogs_def findMany_def Let_def by simp
  have more: "?n < length ?rows \<longleftrightarrow> ?skip + ?n < length ?window"
    by auto
  have p1: "length (fr_data r) \<le> ?n
      \<and> (fr_nextCursor r \<noteq> None \<longleftrightarrow> ?skip + ?n < length ?window)
      \<and> fr_currentPage r = max (page_of opts) 1
      \<and> fr_count r = length (filter
            (buildAuditLogWhereClause (envelope_id opts) (filterForRecentActivity opts)) table)"
    if q: "queryAuditLogs sortRows parse table opts = Some r"
  proof (cases "map_all parse ?rows")
    case None
    with q unfold show ?thesis by simp
  next
    case (Some allParsedData)
    from length_map_all [OF Some] have len: "length allParsedData = length ?rows" .
    from q unfold Some have r: "r =
        \<lparr>fr_data = (if length allParsedData > ?n then take ?n allParsedData
                             else allParsedData),
         fr_count = length (filter
                   (buildAuditLogWhereClause (envelope_id opts) (filterForRecentActivity opts))
                   table),
         fr_currentPage = max (page_of opts) 1, fr_perPage = ?n,
         fr_totalPages = ceil_div (length (filter
                   (buildAuditLogWhereClause (envelope_id opts) (filterForRecentActivity opts))
                   table)) ?n,
         fr_nextCursor = (if length allParsedData > ?n
                                  then Some (log_id (allParsedData ! ?n)) else None)\<rparr>"
      by simp
    have a: "length (fr_data r) \<le> ?n" unfolding r by simp
    have b: "fr_nextCursor r \<noteq> None \<longleftrightarrow> ?skip + ?n < length ?window"
      unfolding r using more len by simp
    from a b show ?thesis unfolding r by simp
  qed
  have p2: "queryAuditLogs sortRows parse table opts \<noteq> None" if "\<forall>row. parse row \<noteq> None"
  proof -
    from map_all_total [OF that, of ?rows] obtain ys where "map_all parse ?rows = Some ys"
      by auto
    with unfold show ?thesis by simp
  qed
  show ?thesis
  proof (intro conjI impI)
    assume q: "queryAuditLogs sortRows parse table opts = Some r"
    from p1 [OF q] show "length (fr_data r) \<le> ?n"
      and "fr_nextCursor r \<noteq> None \<longleftrightarrow> ?skip + ?n < length ?window"
      and "fr_currentPage r = max (page_of opts) 1"
      and "fr_count r = length (filter
            (buildAuditLogWhereClause (envelope_id opts) (filterForRecentActivity opts)) table)"
      by simp_all
  next
    assume "\<forall>row. parse row \<noteq> None"
    then show "queryAuditLogs sortRows parse table opts \<noteq> None" by (rule p2)
  qed
qed


theorem audit_log_page_witness:
  "queryAuditLogs keep_order Some example_logs (example_query 0 2) =
     Some \<lparr>fr_data = take 2 example_logs, fr_count = 3, fr_currentPage = 1, fr_perPage = 2,
           fr_totalPages = Finite 2, fr_nextCursor = Some ''log_3''\<rparr>
   \<and> 2 < length (rows_from_cursor keep_order (buildAuditLogWhereClause ''envelope_1'' None)
              (''createdAt'', desc) None example_logs)"
proof -
  let ?r = "\<lparr>fr_data = take 2 example_logs, fr_count = 3, fr_currentPage = 1, fr_perPage = 2,
           fr_totalPages = Finite 2, fr_nextCursor = Some ''log_3''\<rparr>"
  have rows: "findMany keep_order (buildAuditLogWhereClause ''envelope_1'' None) 0 3
      (''createdAt'', desc) None example_logs = example_logs"
    by (simp add: findMany_def example_rows) (simp add: example_logs_def)
  have len: "length example_logs = 3" by (simp add: example_logs_def)
  have third: "log_id (example_logs ! 2) = ''log_3''" by (simp add: example_logs_def)
  have all: "map_all Some example_logs = Some example_logs" by (simp add: example_logs_def)
  have q: "queryAuditLogs keep_order Some example_logs (example_query 0 2) = Some ?r"
    unfolding queryAuditLogs_def Let_def
    by (simp add: example_query_def page_of_def perPage_of_def truthy_string_def
        example_where ceil_div_def rows all len third)
  from audit_log_page [of keep_order Some example_logs "example_query 0 2" ?r] q
  show ?thesis
    by (simp add: example_query_def page_of_def perPage_of_def truthy_string_def len
        example_rows)
qed

end
